theory Spec2Isabelle
  imports Complex_Main "HOL-Library.AList" "HOL-Library.Product_Lexorder"
begin

section \<open>Values exchanged with the Notion API\<close>

text \<open>
  The script \<^verbatim>\<open>app.py\<close> works on the deserialised JSON that the Notion client returns:
  \<^verbatim>\<open>None\<close>, booleans, numbers, strings, lists and dictionaries. A dictionary is an
  association list in insertion order (Python dictionaries keep it); lookups read the
  first entry of a key. A number, whether Python holds it as an integer or as a float, is
  modelled by its exact value, a rational; the rounding of float arithmetic is outside
  the model, which is exact wherever the arithmetic of the floats is.
\<close>

datatype json =
    JNull
  | JBool bool
  | JNum rat
  | JStr string
  | JArr "json list"
  | JObj "(string \<times> json) list"

text \<open>The exceptions that the modelled Python operations raise.\<close>

datatype py_error = KeyError | TypeError | AttributeError | APIError string

text \<open>Python truthiness, as used by \<^verbatim>\<open>x or y\<close>, \<^verbatim>\<open>if v\<close> and \<^verbatim>\<open>not x\<close>.\<close>

fun truthy :: "json \<Rightarrow> bool" where
  "truthy JNull = False"
| "truthy (JBool b) = b"
| "truthy (JNum n) = (n \<noteq> 0)"
| "truthy (JStr s) = (s \<noteq> [])"
| "truthy (JArr xs) = (xs \<noteq> [])"
| "truthy (JObj kvs) = (kvs \<noteq> [])"

text \<open>\<^verbatim>\<open>x[k]\<close> with a string key \<open>k\<close>: only a dictionary accepts it.\<close>

fun getitem_str :: "json \<Rightarrow> string \<Rightarrow> py_error + json" where
  "getitem_str (JObj kvs) k = (case map_of kvs k of Some x \<Rightarrow> Inr x | None \<Rightarrow> Inl KeyError)"
| "getitem_str _ k = Inl TypeError"

text \<open>
  \<^verbatim>\<open>d[t]\<close> on a dictionary \<open>d\<close> with string keys and an arbitrary key object \<open>t\<close>:
  lists and dictionaries are unhashable, every other non-string key is absent.
\<close>

fun getitem :: "json \<Rightarrow> json \<Rightarrow> py_error + json" where
  "getitem d (JStr k) = getitem_str d k"
| "getitem (JObj kvs) (JArr _) = Inl TypeError"
| "getitem (JObj kvs) (JObj _) = Inl TypeError"
| "getitem (JObj kvs) _ = Inl KeyError"
| "getitem _ _ = Inl TypeError"

text \<open>\<^verbatim>\<open>x.get(k, default)\<close>: a method of dictionaries only.\<close>

fun dict_get :: "json \<Rightarrow> string \<Rightarrow> json \<Rightarrow> py_error + json" where
  "dict_get (JObj kvs) k dflt = Inr (case map_of kvs k of Some x \<Rightarrow> x | None \<Rightarrow> dflt)"
| "dict_get _ k dflt = Inl AttributeError"

text \<open>Iteration (\<^verbatim>\<open>for x in v\<close>): a dictionary yields its keys, a string its characters.\<close>

fun py_iter :: "json \<Rightarrow> py_error + json list" where
  "py_iter (JArr xs) = Inr xs"
| "py_iter (JObj kvs) = Inr (map (\<lambda>kv. JStr (fst kv)) kvs)"
| "py_iter (JStr s) = Inr (map (\<lambda>c. JStr [c]) s)"
| "py_iter _ = Inl TypeError"

text \<open>Substring test, for \<^verbatim>\<open>k in v\<close> when \<open>v\<close> is a string.\<close>

fun substring :: "string \<Rightarrow> string \<Rightarrow> bool" where
  "substring k [] = (k = [])"
| "substring k (c # cs) = (take (length k) (c # cs) = k \<or> substring k cs)"

text \<open>\<^verbatim>\<open>k in v\<close> for a string \<open>k\<close>.\<close>

fun py_in :: "string \<Rightarrow> json \<Rightarrow> py_error + bool" where
  "py_in k (JObj kvs) = Inr (map_of kvs k \<noteq> None)"
| "py_in k (JArr xs) = Inr (JStr k \<in> set xs)"
| "py_in k (JStr s) = Inr (substring k s)"
| "py_in k _ = Inl TypeError"

text \<open>Running a fallible function over a list, stopping at the first exception.\<close>

fun traverse :: "('a \<Rightarrow> 'e + 'b) \<Rightarrow> 'a list \<Rightarrow> 'e + 'b list" where
  "traverse f [] = Inr []"
| "traverse f (x # xs) =
     (case f x of
        Inl e \<Rightarrow> Inl e
      | Inr y \<Rightarrow> (case traverse f xs of Inl e \<Rightarrow> Inl e | Inr ys \<Rightarrow> Inr (y # ys)))"

section \<open>Notion helpers\<close>

text \<open>
  \<^verbatim>\<open>def _plain_text(rich):
    return "".join([t.get("plain_text","") for t in (rich or [])])\<close>
  The list comprehension is evaluated first (an element without \<^verbatim>\<open>get\<close> raises
  AttributeError); \<^verbatim>\<open>join\<close> then raises TypeError on a fragment that is not a string.
\<close>

fun as_str :: "json \<Rightarrow> py_error + string" where
  "as_str (JStr s) = Inr s"
| "as_str _ = Inl TypeError"

definition plain_text :: "json \<Rightarrow> py_error + json" where
  "plain_text rich =
     (case py_iter (if truthy rich then rich else JArr []) of
        Inl e \<Rightarrow> Inl e
      | Inr ts \<Rightarrow>
          (case traverse (\<lambda>t. dict_get t ''plain_text'' (JStr [])) ts of
             Inl e \<Rightarrow> Inl e
           | Inr frags \<Rightarrow>
               (case traverse as_str frags of
                  Inl e \<Rightarrow> Inl e
                | Inr ss \<Rightarrow> Inr (JStr (concat ss)))))"

text \<open>\<^verbatim>\<open>v[key] if v else None\<close>, the body of the select and date branches.\<close>

definition item_if_truthy :: "json \<Rightarrow> string \<Rightarrow> py_error + json" where
  "item_if_truthy v key = (if truthy v then getitem_str v key else Inr JNull)"

text \<open>
  \<^verbatim>\<open>for k in ("number","string","date","boolean"):
    if k in v: return v[k]\<close>
  The result \<open>Inr None\<close> means that the loop ended without returning.
\<close>

fun formula_scan :: "json \<Rightarrow> string list \<Rightarrow> py_error + json option" where
  "formula_scan v [] = Inr None"
| "formula_scan v (k # ks) =
     (case py_in k v of
        Inl e \<Rightarrow> Inl e
      | Inr True \<Rightarrow> (case getitem_str v k of Inl e \<Rightarrow> Inl e | Inr x \<Rightarrow> Inr (Some x))
      | Inr False \<Rightarrow> formula_scan v ks)"

definition formula_keys :: "string list" where
  "formula_keys = [''number'', ''string'', ''date'', ''boolean'']"

text \<open>
  \<^verbatim>\<open>def _get_prop_val(p):
    t = p["type"]; v = p[t]
    if t in ("title","rich_text"): return _plain_text(v)
    if t == "number": return v
    if t == "select": return v["name"] if v else None
    if t == "date": return v["start"] if v else None
    if t == "formula":
        for k in ("number","string","date","boolean"):
            if k in v: return v[k]
    return v\<close>
  The branch on \<open>t\<close> is reached only after \<^verbatim>\<open>p[t]\<close> succeeded, and the keys of \<open>p\<close>
  are strings, so \<open>t\<close> is a string there.
\<close>

definition prop_branch :: "string \<Rightarrow> json \<Rightarrow> py_error + json" where
  "prop_branch t v =
     (if t = ''title'' \<or> t = ''rich_text'' then plain_text v
      else if t = ''number'' then Inr v
      else if t = ''select'' then item_if_truthy v ''name''
      else if t = ''date'' then item_if_truthy v ''start''
      else if t = ''formula'' then
        (case formula_scan v formula_keys of
           Inl e \<Rightarrow> Inl e
         | Inr (Some x) \<Rightarrow> Inr x
         | Inr None \<Rightarrow> Inr v)
      else Inr v)"

definition get_prop_val :: "json \<Rightarrow> py_error + json" where
  "get_prop_val p =
     (case getitem_str p ''type'' of
        Inl e \<Rightarrow> Inl e
      | Inr t \<Rightarrow>
          (case getitem p t of
             Inl e \<Rightarrow> Inl e
           | Inr v \<Rightarrow> (case t of JStr ts \<Rightarrow> prop_branch ts v | _ \<Rightarrow> Inr v)))"

section \<open>The Retriever\<close>

text \<open>A flattened row: column name to extracted value, in insertion order.\<close>

type_synonym row = "(string \<times> json) list"

text \<open>\<^verbatim>\<open>props.items()\<close>: a method of dictionaries only.\<close>

fun dict_items :: "json \<Rightarrow> py_error + (string \<times> json) list" where
  "dict_items (JObj kvs) = Inr kvs"
| "dict_items _ = Inl AttributeError"

text \<open>
  \<^verbatim>\<open>for k, val in props.items(): row[k] = _get_prop_val(val)\<close>
  An assignment to a key that is already there replaces its value in place; a new key goes
  to the end.
\<close>

fun build_row :: "row \<Rightarrow> (string \<times> json) list \<Rightarrow> py_error + row" where
  "build_row row [] = Inr row"
| "build_row row (kv # rest) =
     (case get_prop_val (snd kv) of
        Inl e \<Rightarrow> Inl e
      | Inr x \<Rightarrow> build_row (AList.update (fst kv) x row) rest)"

text \<open>\<^verbatim>\<open>props = page["properties"]; row = {}\<close> and the loop over the properties.\<close>

definition flatten_page :: "json \<Rightarrow> py_error + row" where
  "flatten_page page =
     (case getitem_str page ''properties'' of
        Inl e \<Rightarrow> Inl e
      | Inr props \<Rightarrow>
          (case dict_items props of Inl e \<Rightarrow> Inl e | Inr kvs \<Rightarrow> build_row [] kvs))"

text \<open>\<^verbatim>\<open>for page in resp["results"]: ... rows.append(row)\<close>: the rows of one response.\<close>

definition flatten_results :: "json \<Rightarrow> py_error + row list" where
  "flatten_results resp =
     (case getitem_str resp ''results'' of
        Inl e \<Rightarrow> Inl e
      | Inr res \<Rightarrow>
          (case py_iter res of Inl e \<Rightarrow> Inl e | Inr pages \<Rightarrow> traverse flatten_page pages))"

text \<open>
  The external API, \<^verbatim>\<open>notion.databases.query(database_id, start_cursor, page_size)\<close>: it
  has a state of its own, takes the database identifier, the cursor and the page size, and
  either raises or returns a response.
\<close>

type_synonym 's notion_api = "'s \<Rightarrow> string \<Rightarrow> json \<Rightarrow> nat \<Rightarrow> (py_error + json) \<times> 's"

text \<open>
  The loop of \<^verbatim>\<open>fetch_notion_df\<close>:
  \<^verbatim>\<open>while True:
    resp = notion.databases.query(database_id=database_id, start_cursor=cursor, page_size=100)
    for page in resp["results"]: ...
    if not resp.get("has_more"): break
    cursor = resp.get("next_cursor")\<close>
  The loop may run forever; the value \<open>None\<close> stands for that. An exception ends the
  loop with \<open>Some (Inl e)\<close> and the rows collected so far are lost.
\<close>

partial_function (option) fetch_loop ::
  "'s notion_api \<Rightarrow> string \<Rightarrow> 's \<Rightarrow> row list \<Rightarrow> json \<Rightarrow> (py_error + row list) option"
where
  "fetch_loop query database_id s rows cursor =
     (case query s database_id cursor 100 of
        (Inl e, s') \<Rightarrow> Some (Inl e)
      | (Inr resp, s') \<Rightarrow>
          (case flatten_results resp of
             Inl e \<Rightarrow> Some (Inl e)
           | Inr new \<Rightarrow>
               (case dict_get resp ''has_more'' JNull of
                  Inl e \<Rightarrow> Some (Inl e)
                | Inr has_more \<Rightarrow>
                    if \<not> truthy has_more then Some (Inr (rows @ new))
                    else
                      (case dict_get resp ''next_cursor'' JNull of
                         Inl e \<Rightarrow> Some (Inl e)
                       | Inr c \<Rightarrow> fetch_loop query database_id s' (rows @ new) c))))"

declare fetch_loop.simps [code]

section \<open>The table\<close>

text \<open>
  A pandas column is a typed array: numbers with NaN for a missing value, booleans,
  arbitrary Python objects (where a cell that was absent from its row is NaN, written
  \<open>None\<close> here, and Python's \<^verbatim>\<open>None\<close> is \<open>Some JNull\<close>), or timestamps with NaT.
  The type \<open>'d\<close> is that of timestamps. A table has a row index, whose length is kept
  apart because a table without columns still has rows, and named columns in order.
\<close>

datatype 'd series =
    Float64 "rat option list"
  | Boolean "bool list"
  | Object "json option list"
  | Datetime64 "'d option list"

record 'd dataframe =
  nrows :: nat
  cols :: "(string \<times> 'd series) list"

definition columns :: "'d dataframe \<Rightarrow> string list" where
  "columns df = map fst (cols df)"

text \<open>\<^verbatim>\<open>df.empty\<close>: true when any axis has length 0.\<close>

definition empty :: "'d dataframe \<Rightarrow> bool" where
  "empty df = (nrows df = 0 \<or> cols df = [])"

text \<open>\<^verbatim>\<open>df[name] = s\<close>: an existing column is replaced where it stands.\<close>

definition set_column :: "string \<Rightarrow> 'd series \<Rightarrow> 'd dataframe \<Rightarrow> 'd dataframe" where
  "set_column name s df = df\<lparr>cols := AList.update name s (cols df)\<rparr>"

text \<open>
  \<^verbatim>\<open>pd.DataFrame(rows)\<close> on a list of dictionaries: one row per dictionary, the columns
  are the keys in the order in which they first appear, and a cell whose key is absent
  from its row is NaN. The type of a column is inferred from its cells: numbers, NaN and
  \<^verbatim>\<open>None\<close> with at least one number or NaN give a numeric column, booleans alone a
  boolean column, anything else a column of objects.
\<close>

fun numeric_cell :: "json option \<Rightarrow> bool" where
  "numeric_cell None = True"
| "numeric_cell (Some JNull) = True"
| "numeric_cell (Some (JNum _)) = True"
| "numeric_cell _ = False"

fun cell_number :: "json option \<Rightarrow> rat option" where
  "cell_number (Some (JNum x)) = Some x"
| "cell_number _ = None"

fun bool_cell :: "json option \<Rightarrow> bool" where
  "bool_cell (Some (JBool _)) = True"
| "bool_cell _ = False"

definition infer_series :: "json option list \<Rightarrow> 'd series" where
  "infer_series cells =
     (if list_all numeric_cell cells \<and> list_ex (\<lambda>c. c \<noteq> Some JNull) cells
        then Float64 (map cell_number cells)
      else if list_all bool_cell cells
        then Boolean (map (\<lambda>c. c = Some (JBool True)) cells)
      else Object cells)"

definition column_names :: "row list \<Rightarrow> string list" where
  "column_names rows = rev (remdups (rev (concat (map (map fst) rows))))"

definition DataFrame :: "row list \<Rightarrow> 'd dataframe" where
  "DataFrame rows =
     \<lparr>nrows = length rows,
      cols = map (\<lambda>c. (c, infer_series (map (\<lambda>r. map_of r c) rows))) (column_names rows)\<rparr>"

text \<open>
  \<^verbatim>\<open>def fetch_notion_df(database_id): rows, cursor = [], None; ...; return pd.DataFrame(rows)\<close>
\<close>

definition fetch_notion_df ::
  "'s notion_api \<Rightarrow> 's \<Rightarrow> string \<Rightarrow> (py_error + 'd dataframe) option" where
  "fetch_notion_df query s database_id =
     (case fetch_loop query database_id s [] JNull of
        None \<Rightarrow> None
      | Some (Inl e) \<Rightarrow> Some (Inl e)
      | Some (Inr rows) \<Rightarrow> Some (Inr (DataFrame rows)))"

section \<open>Coercion of the two columns\<close>

text \<open>
  The parsers of pandas are parameters of the model.
  \<^item> \<open>to_datetime s i\<close> is cell \<open>i\<close> of \<^verbatim>\<open>pd.to_datetime(s, errors="coerce")\<close>, \<open>None\<close>
    being NaT: what a cell parses to may depend on the whole column.
  \<^item> \<open>to_numeric str\<close> is what \<^verbatim>\<open>pd.to_numeric(..., errors="coerce")\<close> makes of one
    string, \<open>None\<close> being NaN.
  \<^item> \<open>py_repr v\<close> is \<^verbatim>\<open>str(v)\<close> for a number, a list or a dictionary.
\<close>

record 'd pandas =
  to_datetime :: "'d series \<Rightarrow> nat \<Rightarrow> 'd option"
  to_numeric :: "string \<Rightarrow> rat option"
  py_repr :: "json \<Rightarrow> string"

text \<open>\<^verbatim>\<open>.astype(str)\<close> on a cell of an object column.\<close>

fun astype_str :: "(json \<Rightarrow> string) \<Rightarrow> json option \<Rightarrow> string" where
  "astype_str repr None = ''nan''"
| "astype_str repr (Some (JStr s)) = s"
| "astype_str repr (Some JNull) = ''None''"
| "astype_str repr (Some (JBool b)) = (if b then ''True'' else ''False'')"
| "astype_str repr (Some v) = repr v"

text \<open>\<^verbatim>\<open>.str.replace(",", "", regex=False).str.replace("$", "", regex=False)\<close>\<close>

definition strip_currency :: "string \<Rightarrow> string" where
  "strip_currency s = filter (\<lambda>c. c \<noteq> CHR ''$'') (filter (\<lambda>c. c \<noteq> CHR '','') s)"

text \<open>
  \<^verbatim>\<open>if "Expiration" in pnl_df.columns:
    pnl_df["Expiration"] = pd.to_datetime(pnl_df["Expiration"], errors="coerce")\<close>
\<close>

definition coerce_expiration :: "'d pandas \<Rightarrow> 'd dataframe \<Rightarrow> 'd dataframe" where
  "coerce_expiration P df =
     (case map_of (cols df) ''Expiration'' of
        None \<Rightarrow> df
      | Some s \<Rightarrow>
          set_column ''Expiration'' (Datetime64 (map (to_datetime P s) [0..<nrows df])) df)"

text \<open>
  \<^verbatim>\<open>if "Profit/Loss" in pnl_df.columns and pnl_df["Profit/Loss"].dtype == object:
    pnl_df["Profit/Loss"] = pd.to_numeric(
        pnl_df["Profit/Loss"].astype(str).str.replace(...).str.replace(...), errors="coerce")\<close>
\<close>

definition coerce_profit_loss :: "'d pandas \<Rightarrow> 'd dataframe \<Rightarrow> 'd dataframe" where
  "coerce_profit_loss P df =
     (case map_of (cols df) ''Profit/Loss'' of
        Some (Object cells) \<Rightarrow>
          set_column ''Profit/Loss''
            (Float64 (map (\<lambda>c. to_numeric P (strip_currency (astype_str (py_repr P) c))) cells)) df
      | _ \<Rightarrow> df)"

section \<open>Formatting\<close>

text \<open>
  The value that the formatter receives: a finite number, held by its exact value, an
  infinity, or NaN.
\<close>

datatype number = Finite rat | PosInf | NegInf | NaN

text \<open>
  \<^verbatim>\<open>"{:,.2f}".format(x)\<close> formats a float. Python first converts the value to a float,
  \<^verbatim>\<open>float(x)\<close>: the nearest number with a significand of 53 bits, a tie going to the even
  significand. This matters for the integers from \<open>2\<^sup>5\<^sup>3\<close> on, the sums of a column of
  integers; a value below \<open>2\<^sup>5\<^sup>3\<close> in magnitude is taken as it is, since an integer of
  that size is a float and a float is held by its exact value. The float is then rounded
  to two decimals, a tie going to the even neighbour; the integer part is grouped in
  threes by commas; a negative value carries a minus sign, also when it rounds to zero.
\<close>

definition round_half_even :: "rat \<Rightarrow> int" where
  "round_half_even r =
     (let f = \<lfloor>r\<rfloor>; d = r - of_int f
      in if d < 1 / 2 then f else if 1 / 2 < d then f + 1 else if even f then f else f + 1)"

fun bit_length :: "nat \<Rightarrow> nat" where
  "bit_length n = (if n = 0 then 0 else Suc (bit_length (n div 2)))"

definition to_float :: "rat \<Rightarrow> rat" where
  "to_float x =
     (if \<bar>x\<bar> < 2 ^ 53 then x
      else
        let e = bit_length (nat \<lfloor>\<bar>x\<bar>\<rfloor>) - 53;
            m = round_half_even (\<bar>x\<bar> / 2 ^ e)
        in sgn x * of_int m * 2 ^ e)"

definition digit_char :: "nat \<Rightarrow> char" where
  "digit_char d = ''0123456789'' ! d"

fun digits :: "nat \<Rightarrow> string" where
  "digits n = (if n < 10 then [digit_char n] else digits (n div 10) @ [digit_char (n mod 10)])"

fun group3 :: "string \<Rightarrow> string" where
  "group3 ds =
     (if length ds \<le> 3 then ds
      else group3 (take (length ds - 3) ds) @ '','' @ drop (length ds - 3) ds)"

declare bit_length.simps [simp del] digits.simps [simp del] group3.simps [simp del]

definition format_comma_2f :: "rat \<Rightarrow> string" where
  "format_comma_2f x =
     (let y = to_float x;
          q = nat (round_half_even (\<bar>y\<bar> * 100))
      in (if y < 0 then ''-'' else '''') @ group3 (digits (q div 100)) @ ''.'' @
         [digit_char (q mod 100 div 10), digit_char (q mod 10)])"

text \<open>
  \<^verbatim>\<open>lambda x: "${:,.2f}".format(x) if pd.notnull(x) else ""\<close>
  An infinity is not null, and Python formats it as \<^verbatim>\<open>inf\<close> or \<^verbatim>\<open>-inf\<close>.
\<close>

fun profit_loss_text :: "number \<Rightarrow> string" where
  "profit_loss_text (Finite x) = ''$'' @ format_comma_2f x"
| "profit_loss_text PosInf = ''$inf''"
| "profit_loss_text NegInf = ''$-inf''"
| "profit_loss_text NaN = ''''"

section \<open>Aggregation\<close>

text \<open>
  \<^verbatim>\<open>agg_by_exp = (pnl_df.dropna(subset=["Expiration"])
      .groupby("Expiration", as_index=False)["Profit/Loss"].sum()
      .sort_values("Expiration"))\<close>
  \<open>dropna\<close> removes the rows whose timestamp is NaT; \<open>groupby\<close> makes one group per
  distinct timestamp, in ascending order; \<open>sum\<close> adds the values of a group that are not
  NaN, and an all-NaN group sums to 0; \<open>sort_values\<close> orders the groups by timestamp.
  None of them changes \<^verbatim>\<open>pnl_df\<close>: each returns a new table. The sum is the exact one:
  the wrap-around of a sum of 64-bit integers and the rounding of a sum of floats are
  outside the model.
\<close>

fun dropna :: "('d option \<times> 'a) list \<Rightarrow> ('d \<times> 'a) list" where
  "dropna [] = []"
| "dropna ((None, v) # rs) = dropna rs"
| "dropna ((Some k, v) # rs) = (k, v) # dropna rs"

definition group_sum :: "('d \<times> rat option) list \<Rightarrow> 'd \<Rightarrow> rat" where
  "group_sum rs k = sum_list (List.map_filter snd (filter (\<lambda>r. fst r = k) rs))"

definition groupby_sum :: "('d::linorder \<times> rat option) list \<Rightarrow> ('d \<times> rat) list" where
  "groupby_sum rs = map (\<lambda>k. (k, group_sum rs k)) (sort (remdups (map fst rs)))"

definition sort_values :: "('d::linorder \<times> rat) list \<Rightarrow> ('d \<times> rat) list" where
  "sort_values gs = sort_key fst gs"

text \<open>
  The values that \<open>sum\<close> adds up: those of a numeric column, and a boolean column counts
  as 0 and 1. A column of another type cannot be summed.
\<close>

fun numeric_values :: "'d series \<Rightarrow> rat option list option" where
  "numeric_values (Float64 vs) = Some vs"
| "numeric_values (Boolean bs) = Some (map (\<lambda>b. Some (if b then 1 else 0)) bs)"
| "numeric_values _ = None"

text \<open>
  An aggregated point: timestamp, summed value and the text
  \<^verbatim>\<open>agg_by_exp["Profit/Loss $"] = agg_by_exp["Profit/Loss"].apply(lambda x: ...)\<close>.
  The timestamps of the aggregation are those of the column that line 67 has assigned;
  the two failure branches stand for tables that the script never passes here.
\<close>

type_synonym 'd point = "'d \<times> rat \<times> string"

definition agg_by_exp :: "'d::linorder dataframe \<Rightarrow> py_error + 'd point list" where
  "agg_by_exp df =
     (case map_of (cols df) ''Expiration'' of
        Some (Datetime64 ds) \<Rightarrow>
          (case map_option numeric_values (map_of (cols df) ''Profit/Loss'') of
             Some (Some vs) \<Rightarrow>
               Inr (map (\<lambda>g. (fst g, snd g, profit_loss_text (Finite (snd g))))
                      (sort_values (groupby_sum (dropna (zip ds vs)))))
           | _ \<Rightarrow> Inl TypeError)
      | _ \<Rightarrow> Inl TypeError)"

section \<open>The script\<close>

text \<open>What the page shows at the end of a run.\<close>

datatype 'd ui =
    Warning_secrets
  | Error py_error
  | Info_no_rows
  | Warning_columns
  | Plotly_chart "'d point list"
  | Uncaught py_error

text \<open>
  The part of the script after the fetch. It returns \<^verbatim>\<open>pnl_df\<close> as the run leaves it,
  and what is shown:
  \<^verbatim>\<open>if pnl_df.empty: st.info(...); st.stop()\<close>, the two coercions, and
  \<^verbatim>\<open>if {"Expiration", "Profit/Loss"}.issubset(pnl_df.columns): ... st.plotly_chart(fig)
  else: st.warning(...)\<close>.
\<close>

definition render :: "'d::linorder pandas \<Rightarrow> 'd dataframe \<Rightarrow> 'd dataframe \<times> 'd ui" where
  "render P pnl_df =
     (if empty pnl_df then (pnl_df, Info_no_rows)
      else
        let df1 = coerce_expiration P pnl_df;
            df2 = coerce_profit_loss P df1
        in if set [''Expiration'', ''Profit/Loss''] \<subseteq> set (columns df2)
           then (case agg_by_exp df2 of
                   Inr agg \<Rightarrow> (df2, Plotly_chart agg)
                 | Inl e \<Rightarrow> (df2, Uncaught e))
           else (df2, Warning_columns))"

text \<open>
  The whole run, from the token and the database identifier of the side bar:
  \<^verbatim>\<open>if not db_id_input or not NOTION_TOKEN: st.warning(...); st.stop()
  try: pnl_df = fetch_notion_df(db_id_input)
  except Exception as e: st.error(...); st.stop()\<close>
  \<open>None\<close> is a run whose fetch never returns.
\<close>

definition app ::
  "'d::linorder pandas \<Rightarrow> 's notion_api \<Rightarrow> 's \<Rightarrow> string option \<Rightarrow> string \<Rightarrow> 'd ui option" where
  "app P query s NOTION_TOKEN db_id_input =
     (if db_id_input = [] \<or> NOTION_TOKEN = None \<or> NOTION_TOKEN = Some []
      then Some Warning_secrets
      else
        (case fetch_notion_df query s db_id_input of
           None \<Rightarrow> None
         | Some (Inl e) \<Rightarrow> Some (Error e)
         | Some (Inr pnl_df) \<Rightarrow> Some (snd (render P pnl_df))))"

section \<open>Simulated collaborators\<close>

text \<open>
  A simulated API that serves the records \<open>recs\<close> in pages of the requested size. The
  cursor of a page is the offset of its first record; the first query has no cursor.
\<close>

definition sim_response :: "json list \<Rightarrow> nat \<Rightarrow> nat \<Rightarrow> json" where
  "sim_response recs off n =
     JObj [(''results'', JArr (take n (drop off recs))),
           (''has_more'', JBool (off + n < length recs)),
           (''next_cursor'', if off + n < length recs then JNum (of_nat (off + n)) else JNull)]"

definition sim_query :: "json list \<Rightarrow> unit notion_api" where
  "sim_query recs s database_id cursor page_size =
     (case cursor of
        JNull \<Rightarrow> (Inr (sim_response recs 0 page_size), s)
      | JNum k \<Rightarrow> (Inr (sim_response recs (nat \<lfloor>k\<rfloor>) page_size), s)
      | _ \<Rightarrow> (Inl (APIError ''invalid cursor''), s))"

text \<open>
  An API that answers its \<open>i\<close>-th query with \<open>f i\<close>, whatever the cursor: any sequence of
  responses and exceptions.
\<close>

definition stream_api :: "(nat \<Rightarrow> py_error + json) \<Rightarrow> nat notion_api" where
  "stream_api f i database_id cursor page_size = (f i, Suc i)"

text \<open>A response after which the loop of \<open>fetch_notion_df\<close> goes on to the next query.\<close>

definition continues :: "py_error + json \<Rightarrow> bool" where
  "continues r =
     (case r of
        Inl e \<Rightarrow> False
      | Inr resp \<Rightarrow>
          (case flatten_results resp of
             Inl e \<Rightarrow> False
           | Inr new \<Rightarrow>
               (case dict_get resp ''has_more'' JNull of
                  Inl e \<Rightarrow> False
                | Inr has_more \<Rightarrow> truthy has_more)))"

definition empty_page :: "bool \<Rightarrow> json" where
  "empty_page b =
     JObj [(''results'', JArr []), (''has_more'', JBool b), (''next_cursor'', JNull)]"

text \<open>
  Sample parsers, for running the script on examples: dates written \<^verbatim>\<open>YYYY-MM-DD\<close>, read
  cell by cell as (year, month, day), and plain decimal numbers.
\<close>

definition digit_val :: "char \<Rightarrow> nat option" where
  "digit_val c =
     map_of [(CHR ''0'', 0), (CHR ''1'', 1), (CHR ''2'', 2), (CHR ''3'', 3), (CHR ''4'', 4),
             (CHR ''5'', 5), (CHR ''6'', 6), (CHR ''7'', 7), (CHR ''8'', 8), (CHR ''9'', 9)] c"

fun nat_of_digits :: "nat \<Rightarrow> string \<Rightarrow> nat option" where
  "nat_of_digits acc [] = Some acc"
| "nat_of_digits acc (c # cs) =
     (case digit_val c of None \<Rightarrow> None | Some d \<Rightarrow> nat_of_digits (10 * acc + d) cs)"

definition days_in_month :: "nat \<Rightarrow> nat \<Rightarrow> nat" where
  "days_in_month y m =
     (if m = 2 then (if y mod 4 = 0 \<and> (y mod 100 \<noteq> 0 \<or> y mod 400 = 0) then 29 else 28)
      else if m = 4 \<or> m = 6 \<or> m = 9 \<or> m = 11 then 30 else 31)"

type_synonym date = "nat \<times> nat \<times> nat"

definition iso_date :: "string \<Rightarrow> date option" where
  "iso_date s =
     (if length s = 10 \<and> s ! 4 = CHR ''-'' \<and> s ! 7 = CHR ''-'' then
        (case (nat_of_digits 0 (take 4 s), nat_of_digits 0 (take 2 (drop 5 s)),
               nat_of_digits 0 (drop 8 s)) of
           (Some y, Some m, Some d) \<Rightarrow>
             if 1 \<le> m \<and> m \<le> 12 \<and> 1 \<le> d \<and> d \<le> days_in_month y m then Some (y, m, d) else None
         | _ \<Rightarrow> None)
      else None)"

fun sample_to_datetime :: "date series \<Rightarrow> nat \<Rightarrow> date option" where
  "sample_to_datetime (Object cells) i =
     (if i < length cells
      then (case cells ! i of Some (JStr s) \<Rightarrow> iso_date s | _ \<Rightarrow> None)
      else None)"
| "sample_to_datetime (Datetime64 ds) i = (if i < length ds then ds ! i else None)"
| "sample_to_datetime _ i = None"

definition sample_to_numeric :: "string \<Rightarrow> rat option" where
  "sample_to_numeric s =
     (let neg = (take 1 s = ''-'');
          body = (if neg then drop 1 s else s);
          ip = takeWhile (\<lambda>c. c \<noteq> CHR ''.'') body;
          fp = drop (length ip + 1) body
      in if ip = [] then None
         else
           (case (nat_of_digits 0 ip, nat_of_digits 0 fp) of
              (Some a, Some b) \<Rightarrow>
                Some ((if neg then - 1 else 1) * (of_nat a + of_nat b / 10 ^ length fp))
            | _ \<Rightarrow> None))"

definition sample_pandas :: "date pandas" where
  "sample_pandas =
     \<lparr>to_datetime = sample_to_datetime, to_numeric = sample_to_numeric, py_repr = (\<lambda>v. [])\<rparr>"

section \<open>What the specification says of a property value\<close>

text \<open>
  The text of one fragment of a title or rich text, the empty string where the fragment
  has none; a well-formed fragment carries a string there or nothing.
\<close>

definition fragment_text :: "(string \<times> json) list \<Rightarrow> string" where
  "fragment_text f = (case map_of f ''plain_text'' of Some (JStr s) \<Rightarrow> s | _ \<Rightarrow> [])"

definition text_fragment :: "(string \<times> json) list \<Rightarrow> bool" where
  "text_fragment f =
     (case map_of f ''plain_text'' of None \<Rightarrow> True | Some (JStr s) \<Rightarrow> True | _ \<Rightarrow> False)"

text \<open>
  The result of a formula as the code computes it: the value of the first field whose key
  the computed result carries among number, string, date and boolean, in this order,
  whatever the value, null included; and the result itself when it carries none of the
  keys.
\<close>

definition formula_result :: "(string \<times> json) list \<Rightarrow> json" where
  "formula_result res =
     (case map_of res ''number'' of
        Some x \<Rightarrow> x
      | None \<Rightarrow>
          (case map_of res ''string'' of
             Some x \<Rightarrow> x
           | None \<Rightarrow>
               (case map_of res ''date'' of
                  Some x \<Rightarrow> x
                | None \<Rightarrow>
                    (case map_of res ''boolean'' of Some x \<Rightarrow> x | None \<Rightarrow> JObj res))))"

text \<open>
  The result of a formula in the words of the specification: the first populated field
  among number, string, date and boolean, in this order, a field being populated when it
  is carried with a value that is not null; and the result itself when no field is
  populated.
\<close>

fun populated :: "json option \<Rightarrow> json option" where
  "populated None = None"
| "populated (Some JNull) = None"
| "populated (Some v) = Some v"

definition first_populated :: "(string \<times> json) list \<Rightarrow> json" where
  "first_populated res =
     (case List.map_filter (\<lambda>k. populated (map_of res k)) formula_keys of
        [] \<Rightarrow> JObj res
      | v # _ \<Rightarrow> v)"

text \<open>Sample records: record \<open>i\<close> carries a date and the number \<open>i\<close>; and the rows they flatten to.\<close>

definition sample_record :: "nat \<Rightarrow> json" where
  "sample_record i =
     JObj [(''id'', JStr ''page''),
           (''properties'',
            JObj [(''Expiration'',
                   JObj [(''type'', JStr ''date''), (''date'', JObj [(''start'', JStr ''2024-01-05'')])]),
                  (''Profit/Loss'', JObj [(''type'', JStr ''number''), (''number'', JNum (of_nat i))])])]"

definition sample_row :: "nat \<Rightarrow> row" where
  "sample_row i = [(''Expiration'', JStr ''2024-01-05''), (''Profit/Loss'', JNum (of_nat i))]"

text \<open>
  Two response sequences made of empty pages: one that reports more results for ever, and
  one whose third page reports the end.
\<close>

definition endless_empty_pages :: "nat \<Rightarrow> py_error + json" where
  "endless_empty_pages k = Inr (empty_page True)"

definition three_empty_pages :: "nat \<Rightarrow> py_error + json" where
  "three_empty_pages k = Inr (empty_page (k < 2))"

section \<open>Notions used to state the properties of the table\<close>

text \<open>The number of cells of a column, and a table without its row \<open>i\<close>.\<close>

fun series_length :: "'d series \<Rightarrow> nat" where
  "series_length (Float64 vs) = length vs"
| "series_length (Boolean bs) = length bs"
| "series_length (Object cells) = length cells"
| "series_length (Datetime64 ds) = length ds"

definition drop_nth :: "nat \<Rightarrow> 'a list \<Rightarrow> 'a list" where
  "drop_nth i xs = take i xs @ drop (Suc i) xs"

fun delete_cell :: "nat \<Rightarrow> 'd series \<Rightarrow> 'd series" where
  "delete_cell i (Float64 vs) = Float64 (drop_nth i vs)"
| "delete_cell i (Boolean bs) = Boolean (drop_nth i bs)"
| "delete_cell i (Object cells) = Object (drop_nth i cells)"
| "delete_cell i (Datetime64 ds) = Datetime64 (drop_nth i ds)"

definition delete_row :: "nat \<Rightarrow> 'd dataframe \<Rightarrow> 'd dataframe" where
  "delete_row i df =
     \<lparr>nrows = nrows df - 1, cols = map (\<lambda>cs. (fst cs, delete_cell i (snd cs))) (cols df)\<rparr>"

text \<open>
  A sample table as fetched: three rows, the second with an Expiration that is no date,
  the third without Expiration; the table that \<open>DataFrame\<close> makes of it, and the table
  after the two coercions.
\<close>

definition mixed_rows :: "row list" where
  "mixed_rows =
     [[(''Ticker'', JStr ''AAPL''), (''Expiration'', JStr ''2024-01-05''),
       (''Profit/Loss'', JStr ''$1,100.50'')],
      [(''Ticker'', JStr ''MSFT''), (''Expiration'', JStr ''next week''),
       (''Profit/Loss'', JStr ''7'')],
      [(''Ticker'', JStr ''TSLA''), (''Profit/Loss'', JStr ''-9.25'')]]"

definition mixed_table :: "date dataframe" where
  "mixed_table =
     \<lparr>nrows = 3,
      cols = [(''Ticker'', Object [Some (JStr ''AAPL''), Some (JStr ''MSFT''), Some (JStr ''TSLA'')]),
              (''Expiration'', Object [Some (JStr ''2024-01-05''), Some (JStr ''next week''), None]),
              (''Profit/Loss'',
               Object [Some (JStr ''$1,100.50''), Some (JStr ''7''), Some (JStr ''-9.25'')])]\<rparr>"

definition mixed_coerced :: "date dataframe" where
  "mixed_coerced =
     \<lparr>nrows = 3,
      cols = [(''Ticker'', Object [Some (JStr ''AAPL''), Some (JStr ''MSFT''), Some (JStr ''TSLA'')]),
              (''Expiration'', Datetime64 [Some (2024, 1, 5), None, None]),
              (''Profit/Loss'', Float64 [Some (2201 / 2), Some 7, Some (- 37 / 4)])]\<rparr>"

text \<open>A record whose only property is a date, and a record without properties.\<close>

definition expiration_only_record :: json where
  "expiration_only_record =
     JObj [(''properties'',
            JObj [(''Expiration'',
                   JObj [(''type'', JStr ''date''), (''date'', JObj [(''start'', JStr ''2024-01-05'')])])])]"

definition bare_record :: json where
  "bare_record = JObj [(''properties'', JObj [])]"

section \<open>Notions used to state the properties of the formatter\<close>

text \<open>
  A decimal digit; and a string of digits in groups of three separated by commas, the
  leading group of one to three digits, read from its end.
\<close>

definition is_digit :: "char \<Rightarrow> bool" where
  "is_digit c = (c \<in> set ''0123456789'')"

fun grouped_rev :: "string \<Rightarrow> bool" where
  "grouped_rev (a # b # c # s # rest) =
     (is_digit a \<and> is_digit b \<and> is_digit c \<and> s = CHR '','' \<and> grouped_rev rest)"
| "grouped_rev ds = (ds \<noteq> [] \<and> list_all is_digit ds)"

definition thousands_grouped :: "string \<Rightarrow> bool" where
  "thousands_grouped s = grouped_rev (rev s)"

text \<open>
  The rows of the aggregation example as they are fetched, and the table after the
  coercions.
\<close>

definition claim_rows :: "row list" where
  "claim_rows =
     [[(''Expiration'', JStr ''2024-01-05''), (''Profit/Loss'', JNum 100)],
      [(''Expiration'', JStr ''2024-01-05''), (''Profit/Loss'', JNum (- 30))],
      [(''Expiration'', JStr ''2024-01-12''), (''Profit/Loss'', JNum 50)]]"

definition claim_table :: "date dataframe" where
  "claim_table =
     \<lparr>nrows = 3,
      cols = [(''Expiration'',
               Datetime64 [Some (2024, 1, 5), Some (2024, 1, 5), Some (2024, 1, 12)]),
              (''Profit/Loss'', Float64 [Some 100, Some (- 30), Some 50])]\<rparr>"

section \<open>Properties of the Notion helpers\<close>

lemma traverse_get_plain:
  "traverse (\<lambda>t. dict_get t ''plain_text'' (JStr [])) (map JObj fs) =
   Inr (map (\<lambda>f. case map_of f ''plain_text'' of Some x \<Rightarrow> x | None \<Rightarrow> JStr []) fs)"
  by (induction fs) auto

lemma traverse_as_str:
  "list_all text_fragment fs \<Longrightarrow>
   traverse as_str
     (map (\<lambda>f. case map_of f ''plain_text'' of Some x \<Rightarrow> x | None \<Rightarrow> JStr []) fs) =
   Inr (map fragment_text fs)"
  by (induction fs)
     (auto simp: text_fragment_def fragment_text_def split: option.splits json.splits)

lemma plain_text_fragments:
  assumes "list_all text_fragment fs"
  shows "plain_text (JArr (map JObj fs)) = Inr (JStr (concat (map fragment_text fs)))"
proof -
  have "(if truthy (JArr (map JObj fs)) then JArr (map JObj fs) else JArr []) =
        JArr (map JObj fs)"
    by simp
  then show ?thesis
    unfolding plain_text_def by (simp add: traverse_get_plain traverse_as_str assms)
qed

lemma plain_text_falsy: "\<not> truthy v \<Longrightarrow> plain_text v = Inr (JStr [])"
  by (simp add: plain_text_def)

lemma formula_scan_dict:
  "formula_scan (JObj res) formula_keys =
   Inr (if map_of res ''number'' = None \<and> map_of res ''string'' = None \<and>
           map_of res ''date'' = None \<and> map_of res ''boolean'' = None
        then None else Some (formula_result res))"
  by (auto simp: formula_keys_def formula_result_def split: option.splits)

text \<open>
  C3, as amended. A property value \<open>p\<close> carries its tag \<open>t\<close> under \<^verbatim>\<open>"type"\<close> and its payload
  \<open>v\<close> under the tag. Then \<^verbatim>\<open>_get_prop_val\<close> returns, per tag: for title and rich text, the
  concatenation of the fragments' plain text, and the empty string for no fragments or a
  null payload; for number, the payload as it is, null included; for select, the label
  under \<^verbatim>\<open>"name"\<close>, and null when there is no selection; for date, the value under
  \<^verbatim>\<open>"start"\<close>, and null when there is no date; for formula, the value of the first field
  whose key the computed result carries among number, string, date, boolean, also when
  this value is null, and the result unmodified when it carries none of the keys; for any
  other tag, the payload unmodified.
\<close>

theorem get_prop_val_by_tag:
  assumes "map_of p ''type'' = Some (JStr t)" and "map_of p t = Some v"
  shows
    "(t = ''title'' \<or> t = ''rich_text'' \<longrightarrow>
        (\<not> truthy v \<longrightarrow> get_prop_val (JObj p) = Inr (JStr '''')) \<and>
        (v = JArr (map JObj fs) \<and> list_all text_fragment fs \<longrightarrow>
           get_prop_val (JObj p) = Inr (JStr (concat (map fragment_text fs))))) \<and>
     (t = ''number'' \<longrightarrow> get_prop_val (JObj p) = Inr v) \<and>
     (t = ''select'' \<longrightarrow>
        (\<not> truthy v \<longrightarrow> get_prop_val (JObj p) = Inr JNull) \<and>
        (v = JObj sel \<and> map_of sel ''name'' = Some label \<longrightarrow>
           get_prop_val (JObj p) = Inr label)) \<and>
     (t = ''date'' \<longrightarrow>
        (\<not> truthy v \<longrightarrow> get_prop_val (JObj p) = Inr JNull) \<and>
        (v = JObj dt \<and> map_of dt ''start'' = Some start \<longrightarrow>
           get_prop_val (JObj p) = Inr start)) \<and>
     (t = ''formula'' \<longrightarrow>
        (v = JObj res \<longrightarrow> get_prop_val (JObj p) = Inr (formula_result res))) \<and>
     (t \<notin> {''title'', ''rich_text'', ''number'', ''select'', ''date'', ''formula''} \<longrightarrow>
        get_prop_val (JObj p) = Inr v)"
proof -
  have g: "get_prop_val (JObj p) = prop_branch t v"
    using assms by (simp add: get_prop_val_def)
  show ?thesis
    unfolding g
    by (auto simp: prop_branch_def plain_text_falsy plain_text_fragments item_if_truthy_def
        formula_scan_dict formula_result_def split: option.splits)
qed

theorem get_prop_val_by_tag_witness:
  "get_prop_val (JObj [(''type'', JStr ''title''),
      (''title'', JArr [JObj [(''plain_text'', JStr ''AAPL '')], JObj [(''plain_text'', JStr ''call'')]])])
     = Inr (JStr ''AAPL call'') \<and>
   get_prop_val (JObj [(''type'', JStr ''rich_text''), (''rich_text'', JArr [])]) = Inr (JStr '''') \<and>
   get_prop_val (JObj [(''type'', JStr ''number''), (''number'', JNull)]) = Inr JNull \<and>
   get_prop_val (JObj [(''type'', JStr ''select''), (''select'', JNull)]) = Inr JNull \<and>
   get_prop_val (JObj [(''type'', JStr ''select''), (''select'', JObj [(''name'', JStr ''Put'')])])
     = Inr (JStr ''Put'') \<and>
   get_prop_val (JObj [(''type'', JStr ''date''),
      (''date'', JObj [(''start'', JStr ''2024-01-05''), (''end'', JNull)])])
     = Inr (JStr ''2024-01-05'') \<and>
   get_prop_val (JObj [(''type'', JStr ''formula''),
      (''formula'', JObj [(''type'', JStr ''number''), (''number'', JNum 70)])])
     = Inr (JNum 70) \<and>
   get_prop_val (JObj [(''type'', JStr ''formula''), (''formula'', JObj [(''type'', JStr ''list'')])])
     = Inr (JObj [(''type'', JStr ''list'')]) \<and>
   get_prop_val (JObj [(''type'', JStr ''checkbox''), (''checkbox'', JBool True)]) = Inr (JBool True)"
proof -
  have title:
    "get_prop_val (JObj [(''type'', JStr ''title''),
       (''title'', JArr [JObj [(''plain_text'', JStr ''AAPL '')], JObj [(''plain_text'', JStr ''call'')]])])
     = Inr (JStr ''AAPL call'')"
    using get_prop_val_by_tag
      [of "[(''type'', JStr ''title''),
            (''title'', JArr [JObj [(''plain_text'', JStr ''AAPL '')], JObj [(''plain_text'', JStr ''call'')]])]"
          "''title''"
          "JArr [JObj [(''plain_text'', JStr ''AAPL '')], JObj [(''plain_text'', JStr ''call'')]]"
          "[[(''plain_text'', JStr ''AAPL '')], [(''plain_text'', JStr ''call'')]]"]
    by (simp add: text_fragment_def fragment_text_def)
  have rich:
    "get_prop_val (JObj [(''type'', JStr ''rich_text''), (''rich_text'', JArr [])]) = Inr (JStr '''')"
    using get_prop_val_by_tag
      [of "[(''type'', JStr ''rich_text''), (''rich_text'', JArr [])]" "''rich_text''" "JArr []"]
    by simp
  have number:
    "get_prop_val (JObj [(''type'', JStr ''number''), (''number'', JNull)]) = Inr JNull"
    using get_prop_val_by_tag
      [of "[(''type'', JStr ''number''), (''number'', JNull)]" "''number''" JNull]
    by simp
  have select_none:
    "get_prop_val (JObj [(''type'', JStr ''select''), (''select'', JNull)]) = Inr JNull"
    using get_prop_val_by_tag
      [of "[(''type'', JStr ''select''), (''select'', JNull)]" "''select''" JNull]
    by simp
  have select_some:
    "get_prop_val (JObj [(''type'', JStr ''select''), (''select'', JObj [(''name'', JStr ''Put'')])])
     = Inr (JStr ''Put'')"
    using get_prop_val_by_tag
      [of "[(''type'', JStr ''select''), (''select'', JObj [(''name'', JStr ''Put'')])]"
          "''select''" "JObj [(''name'', JStr ''Put'')]" _ "[(''name'', JStr ''Put'')]" "JStr ''Put''"]
    by simp
  have date:
    "get_prop_val (JObj [(''type'', JStr ''date''),
       (''date'', JObj [(''start'', JStr ''2024-01-05''), (''end'', JNull)])])
     = Inr (JStr ''2024-01-05'')"
    using get_prop_val_by_tag
      [of "[(''type'', JStr ''date''), (''date'', JObj [(''start'', JStr ''2024-01-05''), (''end'', JNull)])]"
          "''date''" "JObj [(''start'', JStr ''2024-01-05''), (''end'', JNull)]" _ _ _
          "[(''start'', JStr ''2024-01-05''), (''end'', JNull)]" "JStr ''2024-01-05''"]
    by simp
  have formula_number:
    "get_prop_val (JObj [(''type'', JStr ''formula''),
       (''formula'', JObj [(''type'', JStr ''number''), (''number'', JNum 70)])])
     = Inr (JNum 70)"
    using get_prop_val_by_tag
      [of "[(''type'', JStr ''formula''), (''formula'', JObj [(''type'', JStr ''number''), (''number'', JNum 70)])]"
          "''formula''" "JObj [(''type'', JStr ''number''), (''number'', JNum 70)]" _ _ _ _ _
          "[(''type'', JStr ''number''), (''number'', JNum 70)]"]
    by (simp add: formula_result_def)
  have formula_other:
    "get_prop_val (JObj [(''type'', JStr ''formula''), (''formula'', JObj [(''type'', JStr ''list'')])])
     = Inr (JObj [(''type'', JStr ''list'')])"
    using get_prop_val_by_tag
      [of "[(''type'', JStr ''formula''), (''formula'', JObj [(''type'', JStr ''list'')])]"
          "''formula''" "JObj [(''type'', JStr ''list'')]" _ _ _ _ _ "[(''type'', JStr ''list'')]"]
    by (simp add: formula_result_def)
  have other:
    "get_prop_val (JObj [(''type'', JStr ''checkbox''), (''checkbox'', JBool True)]) = Inr (JBool True)"
    using get_prop_val_by_tag
      [of "[(''type'', JStr ''checkbox''), (''checkbox'', JBool True)]" "''checkbox''" "JBool True"]
    by simp
  show ?thesis
    using title rich number select_none select_some date formula_number formula_other other
    by (intro conjI)
qed

text \<open>
  The claim C3 as it was stated fails for a formula whose first carried field is null: the
  code returns the null of the number field, not the populated string field.
\<close>

theorem formula_null_field_returned:
  "get_prop_val
     (JObj [(''type'', JStr ''formula''),
            (''formula'', JObj [(''number'', JNull), (''string'', JStr ''x'')])]) = Inr JNull \<and>
   first_populated [(''number'', JNull), (''string'', JStr ''x'')] = JStr ''x''"
  by (simp add: get_prop_val_def prop_branch_def formula_keys_def first_populated_def
      List.map_filter_simps)

section \<open>Properties of the Retriever\<close>

lemma traverse_append:
  "traverse f (xs @ ys) =
     (case traverse f xs of
        Inl e \<Rightarrow> Inl e
      | Inr a \<Rightarrow> (case traverse f ys of Inl e \<Rightarrow> Inl e | Inr b \<Rightarrow> Inr (a @ b)))"
  by (induction xs) (auto split: sum.splits)

lemma traverse_length: "traverse f xs = Inr ys \<Longrightarrow> length ys = length xs"
  by (induction xs arbitrary: ys) (auto split: sum.splits)

lemma traverse_nth:
  "traverse f xs = Inr ys \<Longrightarrow> i < length xs \<Longrightarrow> f (xs ! i) = Inr (ys ! i)"
  by (induction xs arbitrary: ys i) (auto split: sum.splits simp: nth_Cons split: nat.splits)

lemma flatten_results_sim:
  "flatten_results (sim_response recs off n) = traverse flatten_page (take n (drop off recs))"
  by (simp add: flatten_results_def sim_response_def)

lemma sim_query_offset:
  "c = JNum (of_nat off) \<or> c = JNull \<and> off = 0 \<Longrightarrow>
   sim_query recs s db c n = (Inr (sim_response recs off n), s)"
  by (auto simp: sim_query_def)

lemma fetch_loop_sim:
  "traverse flatten_page (drop off recs) = Inr rest \<Longrightarrow>
   c = JNum (of_nat off) \<or> c = JNull \<and> off = 0 \<Longrightarrow>
   fetch_loop (sim_query recs) db s acc c = Some (Inr (acc @ rest))"
proof (induction "length recs - off" arbitrary: off c acc rest rule: less_induct)
  case less
  have split: "drop off recs = take 100 (drop off recs) @ drop (off + 100) recs"
    by (metis add.commute append_take_drop_id drop_drop)
  obtain r1 r2 where r1: "traverse flatten_page (take 100 (drop off recs)) = Inr r1"
    and r2: "traverse flatten_page (drop (off + 100) recs) = Inr r2"
    and rest: "rest = r1 @ r2"
    using less.prems(1) by (subst (asm) split) (auto simp: traverse_append split: sum.splits)
  show ?case
  proof (cases "off + 100 < length recs")
    case True
    have "fetch_loop (sim_query recs) db s (acc @ r1) (JNum (of_nat (off + 100))) = Some (Inr ((acc @ r1) @ r2))"
      using True by (intro less.hyps[OF _ r2]) auto
    then show ?thesis
      using True r1
      by (subst fetch_loop.simps)
         (simp add: sim_query_offset[OF less.prems(2)] flatten_results_sim rest, simp add: sim_response_def)
  next
    case False
    then have "r2 = []" using r2 by simp
    then show ?thesis
      using False r1
      by (subst fetch_loop.simps)
         (simp add: sim_query_offset[OF less.prems(2)] flatten_results_sim rest, simp add: sim_response_def)
  qed
qed


lemma continues_cases:
  assumes "continues r"
  obtains resp new has_more c where "r = Inr resp" "flatten_results resp = Inr new"
    "dict_get resp ''has_more'' JNull = Inr has_more" "truthy has_more"
    "dict_get resp ''next_cursor'' JNull = Inr c"
proof -
  from assms obtain resp new has_more where a: "r = Inr resp" "flatten_results resp = Inr new"
    "dict_get resp ''has_more'' JNull = Inr has_more" "truthy has_more"
    by (auto simp: continues_def split: sum.splits)
  from a(3) obtain kvs where "resp = JObj kvs" by (cases resp) auto
  then have "\<exists>c. dict_get resp ''next_cursor'' JNull = Inr c" by simp
  with a that show thesis by blast
qed

lemma fetch_stream_step:
  assumes "continues (f i)"
  shows "\<exists>rows' c'. fetch_loop (stream_api f) db i rows c =
           fetch_loop (stream_api f) db (Suc i) rows' c'"
proof -
  from assms obtain resp new has_more c' where a: "f i = Inr resp" "flatten_results resp = Inr new"
    "dict_get resp ''has_more'' JNull = Inr has_more" "truthy has_more"
    "dict_get resp ''next_cursor'' JNull = Inr c'"
    by (rule continues_cases)
  have "fetch_loop (stream_api f) db i rows c = fetch_loop (stream_api f) db (Suc i) (rows @ new) c'"
    by (subst fetch_loop.simps) (simp add: stream_api_def a)
  then show ?thesis by blast
qed

lemma fetch_stream_stop:
  assumes "\<not> continues (f i)"
  shows "fetch_loop (stream_api f) db i rows c \<noteq> None"
  using assms
  by (subst fetch_loop.simps) (auto simp: stream_api_def continues_def split: sum.splits)

lemma fetch_stream_terminates:
  "\<not> continues (f k) \<Longrightarrow> i \<le> k \<Longrightarrow> fetch_loop (stream_api f) db i rows c \<noteq> None"
proof (induction "k - i" arbitrary: i rows c)
  case 0
  then show ?case using fetch_stream_stop[of f i] by simp
next
  case (Suc n)
  show ?case
  proof (cases "continues (f i)")
    case True
    then obtain rows' c' where
      "fetch_loop (stream_api f) db i rows c = fetch_loop (stream_api f) db (Suc i) rows' c'"
      using fetch_stream_step by blast
    moreover have "fetch_loop (stream_api f) db (Suc i) rows' c' \<noteq> None"
      using Suc by (intro Suc.hyps) auto
    ultimately show ?thesis by simp
  next
    case False
    then show ?thesis by (rule fetch_stream_stop)
  qed
qed

lemma fetch_stream_diverges_aux:
  assumes "fetch_loop query db i rows c = Some y"
  shows "query = stream_api f \<longrightarrow> (\<forall>k\<ge>i. continues (f k)) \<longrightarrow> False"
  using assms
proof (rule fetch_loop.raw_induct
    [rotated 1, where P = "\<lambda>q d s r cu y. q = stream_api f \<longrightarrow> (\<forall>k\<ge>s. continues (f k)) \<longrightarrow> False"])
  fix fl :: "nat notion_api \<Rightarrow> string \<Rightarrow> nat \<Rightarrow> row list \<Rightarrow> json \<Rightarrow> (py_error + row list) option"
  fix q d s r cu y
  assume IH: "\<And>q d s r cu y. fl q d s r cu = Some y \<Longrightarrow>
                q = stream_api f \<longrightarrow> (\<forall>k\<ge>s. continues (f k)) \<longrightarrow> False"
  assume body:
    "(case q s d cu 100 of
        (Inl e, s') \<Rightarrow> Some (Inl e)
      | (Inr resp, s') \<Rightarrow>
          (case flatten_results resp of
             Inl e \<Rightarrow> Some (Inl e)
           | Inr new \<Rightarrow>
               (case dict_get resp ''has_more'' JNull of
                  Inl e \<Rightarrow> Some (Inl e)
                | Inr has_more \<Rightarrow>
                    if \<not> truthy has_more then Some (Inr (r @ new))
                    else
                      (case dict_get resp ''next_cursor'' JNull of
                         Inl e \<Rightarrow> Some (Inl e)
                       | Inr c \<Rightarrow> fl q d s' (r @ new) c)))) = Some y"
  show "q = stream_api f \<longrightarrow> (\<forall>k\<ge>s. continues (f k)) \<longrightarrow> False"
  proof (intro impI)
    assume q: "q = stream_api f" and all: "\<forall>k\<ge>s. continues (f k)"
    from all have "continues (f s)" by simp
    then obtain resp new has_more c' where a: "f s = Inr resp" "flatten_results resp = Inr new"
      "dict_get resp ''has_more'' JNull = Inr has_more" "truthy has_more"
      "dict_get resp ''next_cursor'' JNull = Inr c'"
      by (rule continues_cases)
    from body have "fl q d (Suc s) (r @ new) c' = Some y"
      by (simp add: q stream_api_def a)
    from IH[OF this] q all show False by simp
  qed
qed

lemma fetch_stream_diverges:
  assumes "\<forall>k\<ge>i. continues (f k)"
  shows "fetch_loop (stream_api f) db i rows c = None"
proof (cases "fetch_loop (stream_api f) db i rows c")
  case None
  then show ?thesis .
next
  case (Some y)
  from fetch_stream_diverges_aux[OF Some, of f] assms show ?thesis by simp
qed

lemma traverse_map:
  "(\<And>x. f (g x) = Inr (h x)) \<Longrightarrow> traverse f (map g xs) = Inr (map h xs)"
  by (induction xs) auto

lemma flatten_sample_record: "flatten_page (sample_record i) = Inr (sample_row i)"
  by (simp add: flatten_page_def sample_record_def sample_row_def get_prop_val_def
      prop_branch_def item_if_truthy_def)

lemma fetch_stream_empty_last:
  "f i = Inr (empty_page False) \<Longrightarrow> fetch_loop (stream_api f) db i rows c = Some (Inr rows)"
  by (subst fetch_loop.simps) (simp add: stream_api_def empty_page_def flatten_results_def)

lemma fetch_stream_empty_more:
  "f i = Inr (empty_page True) \<Longrightarrow>
   fetch_loop (stream_api f) db i rows c = fetch_loop (stream_api f) db (Suc i) rows JNull"
  by (subst fetch_loop.simps) (simp add: stream_api_def empty_page_def flatten_results_def)

text \<open>
  C1. The simulated API serves the \<open>N\<close> records \<open>recs\<close> in pages of 100, each page with its
  \<^verbatim>\<open>has_more\<close> flag and \<^verbatim>\<open>next_cursor\<close>; for \<open>N = 0\<close> it answers the one query with an
  empty page. When the records flatten to the rows \<open>rows\<close>, record by record, then
  \<^verbatim>\<open>fetch_notion_df\<close> returns the table of exactly these \<open>N\<close> rows, in the order of the
  records, for every \<open>N\<close>.
\<close>

theorem fetch_notion_df_complete:
  assumes "traverse flatten_page recs = Inr rows"
  shows
    "fetch_loop (sim_query recs) db () [] JNull = Some (Inr rows) \<and>
     fetch_notion_df (sim_query recs) () db = Some (Inr (DataFrame rows :: 'd dataframe)) \<and>
     nrows (DataFrame rows :: 'd dataframe) = length recs \<and>
     length rows = length recs \<and>
     (\<forall>i<length recs. flatten_page (recs ! i) = Inr (rows ! i))"
proof -
  have loop: "fetch_loop (sim_query recs) db () [] JNull = Some (Inr rows)"
    using fetch_loop_sim[of 0 recs rows JNull db "()" "[]"] assms by simp
  have len: "length rows = length recs"
    using assms by (rule traverse_length)
  show ?thesis
    using loop len traverse_nth[OF assms]
    by (simp add: fetch_notion_df_def DataFrame_def)
qed

theorem fetch_notion_df_complete_witness:
  "fetch_loop (sim_query []) ''db'' () [] JNull = Some (Inr []) \<and>
   nrows (DataFrame [] :: date dataframe) = 0 \<and>
   fetch_loop (sim_query (map sample_record [0..<100])) ''db'' () [] JNull
     = Some (Inr (map sample_row [0..<100])) \<and>
   nrows (DataFrame (map sample_row [0..<100]) :: date dataframe) = 100 \<and>
   fetch_loop (sim_query (map sample_record [0..<101])) ''db'' () [] JNull
     = Some (Inr (map sample_row [0..<101])) \<and>
   nrows (DataFrame (map sample_row [0..<101]) :: date dataframe) = 101 \<and>
   flatten_page (map sample_record [0..<101] ! 100) = Inr (map sample_row [0..<101] ! 100)"
proof -
  have flat: "traverse flatten_page (map sample_record [0..<n]) = Inr (map sample_row [0..<n])"
    for n
    by (rule traverse_map) (rule flatten_sample_record)
  have none: "traverse flatten_page [] = Inr ([] :: row list)"
    by simp
  show ?thesis
    using fetch_notion_df_complete[OF none, of "''db''", where 'd = date]
      fetch_notion_df_complete[OF flat, of 100 "''db''", where 'd = date]
      fetch_notion_df_complete[OF flat, of 101 "''db''", where 'd = date]
    by simp
qed

text \<open>
  C2, as amended. The loop of \<^verbatim>\<open>fetch_notion_df\<close> ends exactly when some response of the
  sequence does not report more results (its \<^verbatim>\<open>has_more\<close> is false or absent), or raises.
  An empty page is not an error and adds no row: when it reports no more results the loop
  returns the rows collected so far, and when it reports more results the loop goes on
  with the next query.
\<close>

theorem fetch_loop_terminates_iff:
  "(fetch_loop (stream_api f) db i rows c \<noteq> None \<longleftrightarrow> (\<exists>k\<ge>i. \<not> continues (f k))) \<and>
   (f i = Inr (empty_page False) \<longrightarrow>
      fetch_loop (stream_api f) db i rows c = Some (Inr rows)) \<and>
   (f i = Inr (empty_page True) \<longrightarrow>
      fetch_loop (stream_api f) db i rows c = fetch_loop (stream_api f) db (Suc i) rows JNull)"
proof (intro conjI impI iffI)
  assume t: "fetch_loop (stream_api f) db i rows c \<noteq> None"
  show "\<exists>k\<ge>i. \<not> continues (f k)"
  proof (rule ccontr)
    assume "\<not> (\<exists>k\<ge>i. \<not> continues (f k))"
    then have "\<forall>k\<ge>i. continues (f k)" by simp
    from fetch_stream_diverges[OF this] t show False by simp
  qed
next
  assume "\<exists>k\<ge>i. \<not> continues (f k)"
  then show "fetch_loop (stream_api f) db i rows c \<noteq> None"
    using fetch_stream_terminates by blast
next
  assume "f i = Inr (empty_page False)"
  then show "fetch_loop (stream_api f) db i rows c = Some (Inr rows)"
    by (rule fetch_stream_empty_last)
next
  assume "f i = Inr (empty_page True)"
  then show "fetch_loop (stream_api f) db i rows c =
             fetch_loop (stream_api f) db (Suc i) rows JNull"
    by (rule fetch_stream_empty_more)
qed

theorem fetch_loop_terminates_iff_witness:
  "(\<exists>k\<ge>0. \<not> continues (three_empty_pages k)) \<and>
   fetch_loop (stream_api three_empty_pages) ''db'' 0 [] JNull = Some (Inr [])"
proof -
  have stop: "\<exists>k\<ge>0. \<not> continues (three_empty_pages k)"
    by (rule exI[of _ 2])
       (simp add: three_empty_pages_def continues_def empty_page_def flatten_results_def)
  have "fetch_loop (stream_api three_empty_pages) ''db'' 0 [] JNull \<noteq> None"
    using fetch_loop_terminates_iff[of three_empty_pages "''db''" 0 "[]" JNull] stop by simp
  moreover have "fetch_loop (stream_api three_empty_pages) ''db'' 0 [] JNull =
                 fetch_loop (stream_api three_empty_pages) ''db'' (Suc 0) [] JNull"
    using fetch_loop_terminates_iff[of three_empty_pages "''db''" 0 "[]" JNull]
    by (simp add: three_empty_pages_def)
  moreover have "fetch_loop (stream_api three_empty_pages) ''db'' (Suc 0) [] JNull =
                 fetch_loop (stream_api three_empty_pages) ''db'' (Suc (Suc 0)) [] JNull"
    using fetch_loop_terminates_iff[of three_empty_pages "''db''" "Suc 0" "[]" JNull]
    by (simp add: three_empty_pages_def)
  moreover have "fetch_loop (stream_api three_empty_pages) ''db'' (Suc (Suc 0)) [] JNull =
                 Some (Inr [])"
    using fetch_loop_terminates_iff[of three_empty_pages "''db''" "Suc (Suc 0)" "[]" JNull]
    by (simp add: three_empty_pages_def)
  ultimately show ?thesis using stop by simp
qed

text \<open>
  The claim C2 as it was stated fails: on the sequence of empty pages that each report
  more results, the loop never ends.
\<close>

theorem fetch_loop_empty_pages_forever:
  "fetch_loop (stream_api endless_empty_pages) ''db'' 0 [] JNull = None"
proof (rule fetch_stream_diverges)
  show "\<forall>k\<ge>0. continues (endless_empty_pages k)"
    by (simp add: endless_empty_pages_def continues_def empty_page_def flatten_results_def)
qed

section \<open>Properties of the table and of the script\<close>

lemma map_of_update_other: "c \<noteq> k \<Longrightarrow> map_of (AList.update k v xs) c = map_of xs c"
  by (simp add: update_conv')

lemma columns_set_column:
  "k \<in> set (columns df) \<Longrightarrow> columns (set_column k s df) = columns df"
  by (simp add: columns_def set_column_def update_keys)

lemma nrows_set_column: "nrows (set_column k s df) = nrows df"
  by (simp add: set_column_def)

lemma map_of_set_column:
  "map_of (cols (set_column k s df)) c = (if c = k then Some s else map_of (cols df) c)"
  by (simp add: set_column_def update_conv')

lemma in_columns_iff: "c \<in> set (columns df) \<longleftrightarrow> map_of (cols df) c \<noteq> None"
  by (simp add: columns_def map_of_eq_None_iff)

lemma coerce_expiration_frame:
  "nrows (coerce_expiration P df) = nrows df \<and>
   columns (coerce_expiration P df) = columns df \<and>
   (c \<noteq> ''Expiration'' \<longrightarrow> map_of (cols (coerce_expiration P df)) c = map_of (cols df) c)"
  by (auto simp: coerce_expiration_def nrows_set_column columns_set_column map_of_set_column
      in_columns_iff split: option.splits)

lemma coerce_profit_loss_frame:
  "nrows (coerce_profit_loss P df) = nrows df \<and>
   columns (coerce_profit_loss P df) = columns df \<and>
   (c \<noteq> ''Profit/Loss'' \<longrightarrow> map_of (cols (coerce_profit_loss P df)) c = map_of (cols df) c)"
  by (auto simp: coerce_profit_loss_def nrows_set_column columns_set_column map_of_set_column
      in_columns_iff split: option.splits series.splits)

lemma render_cases:
  "fst (render P df) = (if empty df then df else coerce_profit_loss P (coerce_expiration P df))"
  by (simp add: render_def Let_def split: sum.splits)


lemma dropna_zip_drop_nth:
  "i < length ds \<Longrightarrow> ds ! i = None \<Longrightarrow>
   dropna (zip (drop_nth i ds) (drop_nth i vs)) = dropna (zip ds vs)"
proof (induction ds arbitrary: i vs)
  case Nil
  then show ?case by simp
next
  case (Cons d ds)
  show ?case
  proof (cases vs)
    case Nil
    then show ?thesis by (simp add: drop_nth_def)
  next
    case (Cons v vs')
    show ?thesis
    proof (cases i)
      case 0
      then show ?thesis using Cons.prems Cons by (simp add: drop_nth_def)
    next
      case (Suc j)
      then have "dropna (zip (drop_nth j ds) (drop_nth j vs')) = dropna (zip ds vs')"
        using Cons.prems by (intro Cons.IH) auto
      then show ?thesis using Suc Cons by (cases d) (simp_all add: drop_nth_def)
    qed
  qed
qed

lemma infer_series_not_datetime: "infer_series cells \<noteq> Datetime64 ds"
  by (simp add: infer_series_def)

lemma map_of_DataFrame:
  "map_of (cols (DataFrame rows)) c =
     (if c \<in> set (column_names rows) then Some (infer_series (map (\<lambda>r. map_of r c) rows)) else None)"
  by (simp add: DataFrame_def map_of_map_restrict restrict_map_def)

lemma numeric_values_delete_cell:
  "numeric_values (delete_cell i s) = map_option (drop_nth i) (numeric_values s)"
  by (cases s) (simp_all add: drop_nth_def take_map drop_map)

lemma map_of_delete_row:
  "map_of (cols (delete_row i df)) c = map_option (delete_cell i) (map_of (cols df) c)"
  by (simp add: delete_row_def map_of_map[unfolded split_def comp_def] split_def)

lemma agg_by_exp_delete_row:
  assumes "map_of (cols df) ''Expiration'' = Some (Datetime64 ds)" "i < length ds" "ds ! i = None"
  shows "agg_by_exp (delete_row i df) = agg_by_exp df"
  using assms
  by (auto simp: agg_by_exp_def map_of_delete_row numeric_values_delete_cell
      dropna_zip_drop_nth split: option.splits)

lemma coerced_shape:
  assumes "map_of (cols df) ''Expiration'' = Some s" and "map_of (cols df) ''Profit/Loss'' = Some pl"
  shows "map_of (cols (coerce_profit_loss P (coerce_expiration P df))) ''Expiration'' =
           Some (Datetime64 (map (to_datetime P s) [0..<nrows df]))"
    and "\<exists>pl'. map_of (cols (coerce_profit_loss P (coerce_expiration P df))) ''Profit/Loss'' = Some pl' \<and>
           ((\<forall>ds. pl \<noteq> Datetime64 ds) \<longrightarrow> numeric_values pl' \<noteq> None)"
  using assms
  by (auto simp: coerce_expiration_def coerce_profit_loss_def map_of_set_column
      split: option.splits series.splits)

lemma series_length_coerced:
  assumes "map_of (cols df) c = Some s" "series_length s = nrows df"
  shows "\<exists>s'. map_of (cols (coerce_profit_loss P (coerce_expiration P df))) c = Some s' \<and>
              series_length s' = nrows df"
  using assms
  by (auto simp: coerce_expiration_def coerce_profit_loss_def map_of_set_column
      split: option.splits series.splits)

lemma floor_numeral_div: "\<lfloor>numeral a / numeral b :: rat\<rfloor> = numeral a div numeral b"
  using floor_divide_of_int_eq[of "numeral a" "numeral b", where 'a = rat] by simp

lemma round_half_even_eval:
  "round_half_even r =
     (if r - of_int \<lfloor>r\<rfloor> < 1 / 2 then \<lfloor>r\<rfloor>
      else if 1 / 2 < r - of_int \<lfloor>r\<rfloor> then \<lfloor>r\<rfloor> + 1
      else if even \<lfloor>r\<rfloor> then \<lfloor>r\<rfloor> else \<lfloor>r\<rfloor> + 1)"
  by (simp add: round_half_even_def Let_def)

lemma format_comma_2f_eval:
  "to_float x = y \<Longrightarrow> nat (round_half_even (\<bar>y\<bar> * 100)) = q \<Longrightarrow>
   format_comma_2f x =
     (if y < 0 then ''-'' else '''') @ group3 (digits (q div 100)) @ ''.'' @
     [digit_char (q mod 100 div 10), digit_char (q mod 10)]"
  by (simp add: format_comma_2f_def Let_def)

lemma to_float_small: "\<bar>x\<bar> < 2 ^ 53 \<Longrightarrow> to_float x = x"
  by (simp add: to_float_def)

lemma text_1100_50: "profit_loss_text (Finite (2201 / 2)) = ''$1,100.50''"
proof -
  have f: "to_float (2201 / 2) = 2201 / 2"
    by (rule to_float_small) simp
  have q: "nat (round_half_even (\<bar>2201 / 2\<bar> * 100)) = 110050"
    by (simp add: round_half_even_eval floor_numeral_div)
  from format_comma_2f_eval[OF f q] show ?thesis
    by (simp add: digit_char_def digits.simps group3.simps)
qed

lemma DataFrame_mixed_rows: "DataFrame mixed_rows = mixed_table"
  by (simp add: mixed_rows_def mixed_table_def DataFrame_def column_names_def infer_series_def)

lemma iso1: "iso_date ''2024-01-05'' = Some (2024, 1, 5)"
  by (simp add: iso_date_def digit_val_def days_in_month_def)

lemma iso2: "iso_date ''next week'' = None"
  by (simp add: iso_date_def)

lemma num1: "sample_to_numeric (strip_currency ''$1,100.50'') = Some (2201 / 2)"
  by (simp add: strip_currency_def sample_to_numeric_def digit_val_def)

lemma num2: "sample_to_numeric (strip_currency ''7'') = Some 7"
  by (simp add: strip_currency_def sample_to_numeric_def digit_val_def)

lemma num3: "sample_to_numeric (strip_currency ''-9.25'') = Some (- 37 / 4)"
  by (simp add: strip_currency_def sample_to_numeric_def digit_val_def)

lemma coerce_mixed_table:
  "coerce_profit_loss sample_pandas (coerce_expiration sample_pandas mixed_table) = mixed_coerced"
  by (simp add: mixed_table_def mixed_coerced_def coerce_profit_loss_def coerce_expiration_def
      set_column_def sample_pandas_def upt_conv_Cons iso1 iso2 num1 num2 num3)

lemma agg_mixed_coerced:
  "agg_by_exp mixed_coerced = Inr [((2024, 1, 5), 2201 / 2, ''$1,100.50'')]"
  by (simp add: mixed_coerced_def agg_by_exp_def groupby_sum_def group_sum_def sort_values_def
      List.map_filter_simps text_1100_50 del: profit_loss_text.simps)

lemma render_mixed_table:
  "render sample_pandas mixed_table =
     (mixed_coerced, Plotly_chart [((2024, 1, 5), 2201 / 2, ''$1,100.50'')])"
proof -
  have "\<not> empty mixed_table"
    by (simp add: empty_def mixed_table_def)
  moreover have "set [''Expiration'', ''Profit/Loss''] \<subseteq> set (columns mixed_coerced)"
    by (simp add: columns_def mixed_coerced_def)
  ultimately show ?thesis
    by (simp add: render_def Let_def coerce_mixed_table agg_mixed_coerced)
qed

lemma fetch_one_page:
  "traverse flatten_page recs = Inr rows \<Longrightarrow>
   fetch_notion_df (sim_query recs) () db = Some (Inr (DataFrame rows))"
  using fetch_loop_sim[of 0 recs rows JNull db "()" "[]"] by (simp add: fetch_notion_df_def)

lemma flatten_expiration_only_record:
  "flatten_page expiration_only_record = Inr [(''Expiration'', JStr ''2024-01-05'')]"
  by (simp add: flatten_page_def expiration_only_record_def get_prop_val_def prop_branch_def
      item_if_truthy_def)

lemma flatten_bare_record: "flatten_page bare_record = Inr []"
  by (simp add: flatten_page_def bare_record_def)

text \<open>
  C7. The table is the one that the fetch has built from the rows, with both columns.
  Row \<open>i\<close> is a row whose Expiration is missing or is no date: \<^verbatim>\<open>pd.to_datetime\<close> with
  \<^verbatim>\<open>errors="coerce"\<close> makes nothing of its cell. Then the coerced cell is null, the run
  raises nothing and shows the chart, the aggregation is the one of the table without
  row \<open>i\<close>, and the table keeps all its rows.
\<close>

theorem unparsable_expiration_excluded:
  fixes P :: "'d::linorder pandas"
  assumes "map_of (cols (DataFrame rows :: 'd dataframe)) ''Expiration'' = Some s"
    and "''Profit/Loss'' \<in> set (columns (DataFrame rows :: 'd dataframe))"
    and "i < length rows"
    and "to_datetime P s i = None"
  shows "\<exists>ds agg.
      map_of (cols (fst (render P (DataFrame rows)))) ''Expiration'' = Some (Datetime64 ds) \<and>
      length ds = length rows \<and> ds ! i = None \<and>
      nrows (fst (render P (DataFrame rows))) = length rows \<and>
      snd (render P (DataFrame rows)) = Plotly_chart agg \<and>
      agg_by_exp (fst (render P (DataFrame rows))) = Inr agg \<and>
      agg_by_exp (delete_row i (fst (render P (DataFrame rows)))) = Inr agg"
proof -
  let ?df = "DataFrame rows :: 'd dataframe"
  let ?df2 = "coerce_profit_loss P (coerce_expiration P ?df)"
  let ?ds = "map (to_datetime P s) [0..<length rows]"
  have n: "nrows ?df = length rows" by (simp add: DataFrame_def)
  obtain pl where pl: "map_of (cols ?df) ''Profit/Loss'' = Some pl"
    using assms(2) by (auto simp: in_columns_iff)
  have nd: "\<forall>ds. pl \<noteq> Datetime64 ds"
    using pl by (auto simp: map_of_DataFrame infer_series_not_datetime split: if_splits)
  have ne: "\<not> empty ?df"
    using assms(1,3) by (auto simp: empty_def n)
  have e: "map_of (cols ?df2) ''Expiration'' = Some (Datetime64 ?ds)"
    using coerced_shape(1)[OF assms(1) pl] n by simp
  obtain pl' vs where p: "map_of (cols ?df2) ''Profit/Loss'' = Some pl'"
    and v: "numeric_values pl' = Some vs"
    using coerced_shape(2)[OF assms(1) pl, of P] nd by auto
  have both: "set [''Expiration'', ''Profit/Loss''] \<subseteq> set (columns ?df2)"
    using e p by (simp add: in_columns_iff)
  obtain agg where agg: "agg_by_exp ?df2 = Inr agg"
    using e p v by (simp add: agg_by_exp_def)
  have r: "render P ?df = (?df2, Plotly_chart agg)"
    using ne both agg by (simp add: render_def Let_def)
  have i: "?ds ! i = None" "i < length ?ds"
    using assms(3,4) by simp_all
  have "agg_by_exp (delete_row i ?df2) = Inr agg"
    using agg_by_exp_delete_row[OF e i(2) i(1)] agg by simp
  moreover have "nrows ?df2 = length rows"
    using coerce_profit_loss_frame[of P "coerce_expiration P ?df"] coerce_expiration_frame[of P ?df] n
    by simp
  ultimately show ?thesis
    using r e i agg by (intro exI[of _ ?ds] exI[of _ agg]) simp
qed

theorem unparsable_expiration_excluded_witness:
  "snd (render sample_pandas (DataFrame mixed_rows)) =
     Plotly_chart [((2024, 1, 5), 2201 / 2, ''$1,100.50'')] \<and>
   agg_by_exp (delete_row 1 (fst (render sample_pandas (DataFrame mixed_rows)))) =
     Inr [((2024, 1, 5), 2201 / 2, ''$1,100.50'')] \<and>
   agg_by_exp (delete_row 2 (fst (render sample_pandas (DataFrame mixed_rows)))) =
     Inr [((2024, 1, 5), 2201 / 2, ''$1,100.50'')] \<and>
   nrows (fst (render sample_pandas (DataFrame mixed_rows))) = 3"
proof -
  let ?s = "Object [Some (JStr ''2024-01-05''), Some (JStr ''next week''), None] :: date series"
  have h1: "map_of (cols (DataFrame mixed_rows :: date dataframe)) ''Expiration'' = Some ?s"
    by (simp add: DataFrame_mixed_rows mixed_table_def)
  have h2: "''Profit/Loss'' \<in> set (columns (DataFrame mixed_rows :: date dataframe))"
    by (simp add: DataFrame_mixed_rows mixed_table_def columns_def)
  have h3: "1 < length mixed_rows" "2 < length mixed_rows"
    by (simp_all add: mixed_rows_def)
  have h4: "to_datetime sample_pandas ?s 1 = None" "to_datetime sample_pandas ?s 2 = None"
    by (simp_all add: sample_pandas_def iso2)
  have r: "snd (render sample_pandas (DataFrame mixed_rows)) =
             Plotly_chart [((2024, 1, 5), 2201 / 2, ''$1,100.50'')]"
    by (simp add: DataFrame_mixed_rows render_mixed_table)
  from unparsable_expiration_excluded[OF h1 h2 h3(1) h4(1)] r
  have a: "agg_by_exp (delete_row 1 (fst (render sample_pandas (DataFrame mixed_rows)))) =
             Inr [((2024, 1, 5), 2201 / 2, ''$1,100.50'')] \<and>
           nrows (fst (render sample_pandas (DataFrame mixed_rows))) = 3"
    using h3 by (auto simp: mixed_rows_def)
  from unparsable_expiration_excluded[OF h1 h2 h3(2) h4(2)] r
  have b: "agg_by_exp (delete_row 2 (fst (render sample_pandas (DataFrame mixed_rows)))) =
             Inr [((2024, 1, 5), 2201 / 2, ''$1,100.50'')]"
    by auto
  from r a b show ?thesis by simp
qed

text \<open>
  C8, as amended. A table with at least one row and at least one column that lacks the
  column \<^verbatim>\<open>"Expiration"\<close> or the column \<^verbatim>\<open>"Profit/Loss"\<close> is not aggregated: the run
  shows the warning that names the two columns, and raises nothing. (A table with rows
  and no column at all counts as empty for \<^verbatim>\<open>pnl_df.empty\<close>.)
\<close>

theorem missing_column_warning:
  assumes "0 < nrows df" and "cols df \<noteq> []"
    and "''Expiration'' \<notin> set (columns df) \<or> ''Profit/Loss'' \<notin> set (columns df)"
  shows "snd (render P df) = Warning_columns \<and>
         (db \<noteq> [] \<and> token \<noteq> None \<and> token \<noteq> Some [] \<and>
          fetch_notion_df query s db = Some (Inr df) \<longrightarrow>
            app P query s token db = Some Warning_columns)"
proof -
  have "snd (render P df) = Warning_columns"
    using assms coerce_profit_loss_frame[of P "coerce_expiration P df"]
      coerce_expiration_frame[of P df]
    by (auto simp: render_def Let_def empty_def)
  then show ?thesis by (simp add: app_def)
qed

theorem missing_column_warning_witness:
  "snd (render sample_pandas (DataFrame [[(''Expiration'', JStr ''2024-01-05'')]])) =
     Warning_columns \<and>
   app sample_pandas (sim_query [expiration_only_record]) () (Some ''secret'') ''db'' =
     Some Warning_columns"
proof -
  let ?df = "DataFrame [[(''Expiration'', JStr ''2024-01-05'')]] :: date dataframe"
  have df: "?df = \<lparr>nrows = 1, cols = [(''Expiration'', Object [Some (JStr ''2024-01-05'')])]\<rparr>"
    by (simp add: DataFrame_def column_names_def infer_series_def)
  have h: "0 < nrows ?df" "cols ?df \<noteq> []"
    "''Expiration'' \<notin> set (columns ?df) \<or> ''Profit/Loss'' \<notin> set (columns ?df)"
    by (simp_all add: df columns_def)
  have f: "fetch_notion_df (sim_query [expiration_only_record]) () ''db'' = Some (Inr ?df)"
    by (rule fetch_one_page) (simp add: flatten_expiration_only_record)
  show ?thesis
    using missing_column_warning[OF h, of sample_pandas "''db''" "Some ''secret''"
        "sim_query [expiration_only_record]" "()"] f
    by simp
qed

text \<open>
  The claim C8 as it was stated fails on a table with a row and no column: the fetch of
  a record without properties builds it, and the run reports it as an empty data set.
\<close>

theorem rows_without_columns_reported_empty:
  "nrows (DataFrame [[]] :: date dataframe) = 1 \<and>
   ''Profit/Loss'' \<notin> set (columns (DataFrame [[]] :: date dataframe)) \<and>
   snd (render sample_pandas (DataFrame [[]])) = Info_no_rows \<and>
   snd (render sample_pandas (DataFrame [[]])) \<noteq> Warning_columns \<and>
   app sample_pandas (sim_query [bare_record]) () (Some ''secret'') ''db'' = Some Info_no_rows"
proof -
  have df: "(DataFrame [[]] :: date dataframe) = \<lparr>nrows = 1, cols = []\<rparr>"
    by (simp add: DataFrame_def column_names_def)
  have f: "fetch_notion_df (sim_query [bare_record]) () ''db'' =
             Some (Inr (DataFrame [[]] :: date dataframe))"
    by (rule fetch_one_page) (simp add: flatten_bare_record)
  show ?thesis
    using f by (simp add: app_def) (simp add: df render_def empty_def columns_def)
qed

text \<open>
  C9. When the fetch retrieves zero rows, the run shows the message that asks for data,
  which is not the warning about the columns; a table with zero rows is returned as it is,
  neither coerced nor aggregated, and no chart is shown.
\<close>

theorem no_rows_info:
  assumes "fetch_loop query db s [] JNull = Some (Inr [])"
    and "db \<noteq> []" and "token \<noteq> None" and "token \<noteq> Some []"
  shows "app P query s token db = Some Info_no_rows \<and>
         (Info_no_rows :: 'd::linorder ui) \<noteq> Warning_columns \<and>
         (nrows df = 0 \<longrightarrow> render P df = (df, Info_no_rows))"
  using assms
  by (simp add: app_def fetch_notion_df_def render_def empty_def DataFrame_def)

theorem no_rows_info_witness:
  "app sample_pandas (sim_query []) () (Some ''secret'') ''db'' = Some Info_no_rows \<and>
   render sample_pandas
     \<lparr>nrows = 0, cols = [(''Expiration'', Object []), (''Profit/Loss'', Float64 [])]\<rparr> =
     (\<lparr>nrows = 0, cols = [(''Expiration'', Object []), (''Profit/Loss'', Float64 [])]\<rparr>,
      Info_no_rows)"
proof -
  have h: "fetch_loop (sim_query []) ''db'' () [] JNull = Some (Inr [])"
    using fetch_loop_sim[of 0 "[]" "[]" JNull "''db''" "()" "[]"] by simp
  show ?thesis
    using no_rows_info[OF h, of "Some ''secret''" sample_pandas
        "\<lparr>nrows = 0, cols = [(''Expiration'', Object []), (''Profit/Loss'', Float64 [])]\<rparr>"]
    by simp
qed

text \<open>
  C10. After the run the table \<^verbatim>\<open>pnl_df\<close> has the rows and the columns that it had when it
  was fetched, in the same order; every column other than \<^verbatim>\<open>"Expiration"\<close> and
  \<^verbatim>\<open>"Profit/Loss"\<close> is the same list of cells; a column that had one cell per row still has.
  The table after the run is the coerced table: the aggregation works on tables of its own
  and leaves \<^verbatim>\<open>pnl_df\<close> as the coercion made it.
\<close>

theorem coercion_frame:
  "nrows (fst (render P df)) = nrows df \<and>
   columns (fst (render P df)) = columns df \<and>
   (c \<noteq> ''Expiration'' \<and> c \<noteq> ''Profit/Loss'' \<longrightarrow>
      map_of (cols (fst (render P df))) c = map_of (cols df) c) \<and>
   (map_of (cols df) c = Some s \<and> series_length s = nrows df \<longrightarrow>
      (\<exists>s'. map_of (cols (fst (render P df))) c = Some s' \<and> series_length s' = nrows df)) \<and>
   fst (render P df) = (if empty df then df else coerce_profit_loss P (coerce_expiration P df))"
  using coerce_profit_loss_frame[of P "coerce_expiration P df" c] coerce_expiration_frame[of P df c]
    series_length_coerced[of df c s P]
  by (simp add: render_cases)

theorem coercion_frame_witness:
  "nrows (fst (render sample_pandas (DataFrame mixed_rows))) = 3 \<and>
   columns (fst (render sample_pandas (DataFrame mixed_rows))) =
     [''Ticker'', ''Expiration'', ''Profit/Loss''] \<and>
   map_of (cols (fst (render sample_pandas (DataFrame mixed_rows)))) ''Ticker'' =
     Some (Object [Some (JStr ''AAPL''), Some (JStr ''MSFT''), Some (JStr ''TSLA'')]) \<and>
   (\<exists>s'. map_of (cols (fst (render sample_pandas (DataFrame mixed_rows)))) ''Profit/Loss'' = Some s' \<and>
         series_length s' = 3)"
proof -
  let ?df = "DataFrame mixed_rows :: date dataframe"
  let ?t = "Object [Some (JStr ''AAPL''), Some (JStr ''MSFT''), Some (JStr ''TSLA'')] :: date series"
  let ?p = "Object [Some (JStr ''$1,100.50''), Some (JStr ''7''), Some (JStr ''-9.25'')] :: date series"
  have n: "nrows ?df = 3"
    and c: "columns ?df = [''Ticker'', ''Expiration'', ''Profit/Loss'']"
    and t: "map_of (cols ?df) ''Ticker'' = Some ?t"
    and p: "map_of (cols ?df) ''Profit/Loss'' = Some ?p"
    by (simp_all add: DataFrame_mixed_rows mixed_table_def columns_def)
  note F = coercion_frame[of sample_pandas ?df "''Ticker''" ?t]
  note G = coercion_frame[of sample_pandas ?df "''Profit/Loss''" ?p]
  have 1: "nrows (fst (render sample_pandas ?df)) = 3"
    using F[THEN conjunct1] n by simp
  have 2: "columns (fst (render sample_pandas ?df)) = [''Ticker'', ''Expiration'', ''Profit/Loss'']"
    using F[THEN conjunct2, THEN conjunct1] c by simp
  have 3: "map_of (cols (fst (render sample_pandas ?df))) ''Ticker'' = Some ?t"
    using F[THEN conjunct2, THEN conjunct2, THEN conjunct1] t by simp
  have 4: "\<exists>s'. map_of (cols (fst (render sample_pandas ?df))) ''Profit/Loss'' = Some s' \<and>
                series_length s' = 3"
    using G[THEN conjunct2, THEN conjunct2, THEN conjunct2, THEN conjunct1] p n by simp
  from 1 2 3 4 show ?thesis by (intro conjI)
qed

section \<open>Properties of the formatter, the aggregation and the coercion\<close>

lemma digit_char_props:
  "d < 10 \<Longrightarrow>
   is_digit (digit_char d) \<and> digit_val (digit_char d) = Some d \<and> CHR '','' \<noteq> digit_char d"
proof -
  assume "d < 10"
  then have "d \<in> {0, 1, 2, 3, 4, 5, 6, 7, 8, 9}" by auto
  then show ?thesis
    by (auto simp: digit_char_def is_digit_def digit_val_def)
qed

lemma digits_props: "digits n \<noteq> [] \<and> list_all is_digit (digits n) \<and> CHR '','' \<notin> set (digits n)"
proof (induction n rule: digits.induct)
  case (1 n)
  show ?case
  proof (cases "n < 10")
    case True
    then show ?thesis
      using digit_char_props[of n] by (subst digits.simps, subst digits.simps, subst digits.simps) auto
  next
    case False
    have "n mod 10 < 10" by simp
    from digit_char_props[OF this] 1[OF False] False show ?thesis
      by (subst digits.simps, subst digits.simps, subst digits.simps) auto
  qed
qed

lemma nat_of_digits_snoc:
  "nat_of_digits acc (xs @ [c]) =
     (case nat_of_digits acc xs of
        None \<Rightarrow> None
      | Some a \<Rightarrow> (case digit_val c of None \<Rightarrow> None | Some d \<Rightarrow> Some (10 * a + d)))"
  by (induction xs arbitrary: acc) (auto split: option.splits)

lemma nat_of_digits_digits: "nat_of_digits 0 (digits n) = Some n"
proof (induction n rule: digits.induct)
  case (1 n)
  show ?case
  proof (cases "n < 10")
    case True
    then show ?thesis
      using digit_char_props[of n] by (subst digits.simps) simp
  next
    case False
    have "n mod 10 < 10" by simp
    from digit_char_props[OF this] 1[OF False] False show ?thesis
      by (subst digits.simps) (simp add: nat_of_digits_snoc)
  qed
qed

lemma grouped_rev_short:
  "length ds \<le> 3 \<Longrightarrow> grouped_rev ds = (ds \<noteq> [] \<and> list_all is_digit ds)"
  by (cases ds rule: grouped_rev.cases) auto

lemma group3_filter: "CHR '','' \<notin> set ds \<Longrightarrow> filter (\<lambda>c. c \<noteq> CHR '','') (group3 ds) = ds"
proof (induction ds rule: group3.induct)
  case (1 ds)
  show ?case
  proof (cases "length ds \<le> 3")
    case True
    then show ?thesis using 1(2) by (subst group3.simps) (auto simp: filter_id_conv)
  next
    case False
    have a: "CHR '','' \<notin> set (take (length ds - 3) ds)" and b: "CHR '','' \<notin> set (drop (length ds - 3) ds)"
      using 1(2) by (auto dest: in_set_takeD in_set_dropD)
    have "filter (\<lambda>c. c \<noteq> CHR '','') (group3 ds) =
          take (length ds - 3) ds @ filter (\<lambda>c. c \<noteq> CHR '','') (drop (length ds - 3) ds)"
      using False 1(1)[OF False a] by (subst group3.simps) simp
    also have "filter (\<lambda>c. c \<noteq> CHR '','') (drop (length ds - 3) ds) = drop (length ds - 3) ds"
      using b by (auto simp: filter_id_conv)
    finally show ?thesis by simp
  qed
qed

lemma length3_cases: "length xs = 3 \<Longrightarrow> \<exists>a b c. xs = [a, b, c]"
  by (auto simp: length_Suc_conv numeral_3_eq_3)

lemma group3_grouped:
  "ds \<noteq> [] \<Longrightarrow> list_all is_digit ds \<Longrightarrow> thousands_grouped (group3 ds)"
proof (induction ds rule: group3.induct)
  case (1 ds)
  show ?case
  proof (cases "length ds \<le> 3")
    case True
    then show ?thesis
      using 1(2,3) by (subst group3.simps) (simp add: thousands_grouped_def grouped_rev_short)
  next
    case False
    define h where "h = take (length ds - 3) ds"
    define t where "t = drop (length ds - 3) ds"
    have "length t = 3" using False by (simp add: t_def)
    then obtain a b c where tl: "t = [a, b, c]"
      using length3_cases by blast
    have "list_all is_digit t"
      using 1(3) by (auto simp: t_def list_all_iff dest: in_set_dropD)
    then have dt: "is_digit a" "is_digit b" "is_digit c"
      by (simp_all add: tl)
    have dh: "list_all is_digit h"
      using 1(3) by (auto simp: h_def list_all_iff dest: in_set_takeD)
    have "h \<noteq> []" using False by (auto simp: h_def)
    from 1(1)[OF False this[unfolded h_def] dh[unfolded h_def]]
    have IH: "grouped_rev (rev (group3 h))"
      by (simp add: thousands_grouped_def h_def)
    have "group3 ds = group3 h @ '','' @ t"
      using False by (subst group3.simps) (simp add: h_def t_def)
    then have "rev (group3 ds) = c # b # a # CHR '','' # rev (group3 h)"
      by (simp add: tl)
    then show ?thesis
      using IH dt by (simp add: thousands_grouped_def)
  qed
qed

lemma round_half_even_near:
  "\<bar>of_int (round_half_even r) - r\<bar> \<le> 1 / 2"
proof -
  have "of_int \<lfloor>r\<rfloor> \<le> r" "r < of_int \<lfloor>r\<rfloor> + 1" by linarith+
  then show ?thesis
    by (auto simp: round_half_even_def Let_def abs_le_iff)
qed

lemma round_half_even_nonneg: "0 \<le> r \<Longrightarrow> 0 \<le> round_half_even r"
  by (auto simp: round_half_even_def Let_def)

lemma text_1234_50: "profit_loss_text (Finite 1234.5) = ''$1,234.50''"
proof -
  have f: "to_float 1234.5 = 1234.5"
    by (rule to_float_small) simp
  have q: "nat (round_half_even (\<bar>1234.5\<bar> * 100)) = 123450"
    by (simp add: round_half_even_eval floor_numeral_div)
  from format_comma_2f_eval[OF f q] show ?thesis
    by (simp add: digit_char_def digits.simps group3.simps)
qed

lemma text_neg_1234_50: "profit_loss_text (Finite (- 1234.5)) = ''$-1,234.50''"
proof -
  have f: "to_float (- 1234.5) = - 1234.5"
    by (rule to_float_small) simp
  have q: "nat (round_half_even (\<bar>- 1234.5\<bar> * 100)) = 123450"
    by (simp add: round_half_even_eval floor_numeral_div)
  from format_comma_2f_eval[OF f q] show ?thesis
    by (simp add: digit_char_def digits.simps group3.simps)
qed

lemma text_70: "profit_loss_text (Finite 70) = ''$70.00''"
proof -
  have f: "to_float 70 = 70"
    by (rule to_float_small) simp
  have q: "nat (round_half_even (\<bar>70\<bar> * 100)) = 7000"
    by (simp add: round_half_even_eval)
  from format_comma_2f_eval[OF f q] show ?thesis
    by (simp add: digit_char_def digits.simps group3.simps)
qed

lemma text_50: "profit_loss_text (Finite 50) = ''$50.00''"
proof -
  have f: "to_float 50 = 50"
    by (rule to_float_small) simp
  have q: "nat (round_half_even (\<bar>50\<bar> * 100)) = 5000"
    by (simp add: round_half_even_eval)
  from format_comma_2f_eval[OF f q] show ?thesis
    by (simp add: digit_char_def digits.simps group3.simps)
qed

lemma bit_length_54: "bit_length 9007199254740993 = 54"
  by (simp add: bit_length.simps)

lemma to_float_above_53_bits: "to_float 9007199254740993 = 9007199254740992"
proof -
  have "nat \<lfloor>\<bar>9007199254740993 :: rat\<bar>\<rfloor> = 9007199254740993"
    by simp
  moreover have "round_half_even (\<bar>9007199254740993\<bar> / 2 ^ (54 - 53)) = 4503599627370496"
    by (simp add: round_half_even_eval floor_numeral_div)
  ultimately show ?thesis
    by (simp add: to_float_def Let_def bit_length_54)
qed

lemma text_above_53_bits:
  "profit_loss_text (Finite 9007199254740993) = ''$9,007,199,254,740,992.00''"
proof -
  have q: "nat (round_half_even (\<bar>9007199254740992\<bar> * 100)) = 900719925474099200"
    by (simp add: round_half_even_eval)
  from format_comma_2f_eval[OF to_float_above_53_bits q] show ?thesis
    by (simp add: digit_char_def digits.simps group3.simps)
qed

lemma bit_length_lower: "0 < n \<Longrightarrow> 2 ^ (bit_length n - 1) \<le> n"
proof (induction n rule: bit_length.induct)
  case (1 n)
  show ?case
  proof (cases "n div 2 = 0")
    case True
    then have "bit_length n = Suc 0"
      using 1(2) by (subst bit_length.simps, subst bit_length.simps) simp
    then show ?thesis using 1(2) by simp
  next
    case False
    then have pos: "0 < n div 2" by simp
    have "bit_length (n div 2) \<noteq> 0"
      using False by (subst bit_length.simps) simp
    then obtain b where b: "bit_length (n div 2) = Suc b"
      by (cases "bit_length (n div 2)") auto
    have "2 ^ b \<le> n div 2"
      using 1(1)[OF _ pos] 1(2) b by simp
    then have "2 * 2 ^ b \<le> n" by linarith
    moreover have "bit_length n = Suc (Suc b)"
      using 1(2) b by (subst bit_length.simps) simp
    ultimately show ?thesis by simp
  qed
qed

lemma round_half_even_ge_floor: "\<lfloor>r\<rfloor> \<le> round_half_even r"
  by (simp add: round_half_even_def Let_def)

lemma to_float_neg_iff: "to_float x < 0 \<longleftrightarrow> x < 0"
proof (cases "\<bar>x\<bar> < 2 ^ 53")
  case True
  then show ?thesis by (simp add: to_float_small)
next
  case False
  define n where "n = nat \<lfloor>\<bar>x\<bar>\<rfloor>"
  define e where "e = bit_length n - 53"
  define m where "m = round_half_even (\<bar>x\<bar> / 2 ^ e)"
  have tf: "to_float x = sgn x * of_int m * 2 ^ e"
    using False by (simp add: to_float_def Let_def n_def e_def m_def)
  have "(2 :: rat) ^ 53 \<le> \<bar>x\<bar>" using False by simp
  then have "(1 :: rat) \<le> \<bar>x\<bar>" by (rule order_trans[rotated]) simp
  then have fl: "1 \<le> \<lfloor>\<bar>x\<bar>\<rfloor>" by (simp add: le_floor_iff)
  then have npos: "0 < n" by (simp add: n_def)
  have "2 ^ e \<le> (2 :: nat) ^ (bit_length n - 1)"
    by (rule power_increasing) (simp_all add: e_def)
  also have "\<dots> \<le> n" using npos by (rule bit_length_lower)
  finally have "(2 :: nat) ^ e \<le> n" .
  then have "(of_nat (2 ^ e) :: rat) \<le> of_nat n" by (simp only: of_nat_le_iff)
  then have "(2 :: rat) ^ e \<le> of_nat n" by simp
  also have "(of_nat n :: rat) = of_int \<lfloor>\<bar>x\<bar>\<rfloor>"
    using fl by (simp add: n_def)
  also have "\<dots> \<le> \<bar>x\<bar>" by (rule of_int_floor_le)
  finally have "(2 :: rat) ^ e \<le> \<bar>x\<bar>" .
  then have "1 \<le> \<bar>x\<bar> / 2 ^ e" by (simp add: le_divide_eq)
  then have "1 \<le> \<lfloor>\<bar>x\<bar> / 2 ^ e\<rfloor>" by (simp add: le_floor_iff)
  then have mpos: "0 < m"
    using round_half_even_ge_floor[of "\<bar>x\<bar> / 2 ^ e"] unfolding m_def by linarith
  then have "0 < (of_int m :: rat) * 2 ^ e" by simp
  then show ?thesis
    unfolding tf by (simp add: mult.assoc zero_less_mult_iff mult_less_0_iff sgn_if)
qed

lemma nat_of_digits_two:
  assumes "a < 10" "b < 10"
  shows "nat_of_digits 0 (digits n @ [digit_char a, digit_char b]) = Some (100 * n + 10 * a + b)"
proof -
  have "digits n @ [digit_char a, digit_char b] = (digits n @ [digit_char a]) @ [digit_char b]"
    by simp
  then show ?thesis
    using digit_char_props[OF assms(1)] digit_char_props[OF assms(2)]
    by (simp only: nat_of_digits_snoc nat_of_digits_digits) simp
qed

text \<open>
  C5, as amended. For every finite summed value \<open>x\<close> the text is the dollar sign, a minus
  sign when \<open>x\<close> is negative, the integer part in groups of three digits separated by
  commas, a point and exactly two decimal digits; its digits are, in cents, the float that
  Python makes of \<open>x\<close>, rounded to the nearest cent. So 1234.5 gives \<^verbatim>\<open>$1,234.50\<close>, and the
  sign of a negative value comes after the dollar sign: -1234.5 gives \<^verbatim>\<open>$-1,234.50\<close>. An
  integer sum beyond 53 bits is formatted as its float: \<open>2\<^sup>5\<^sup>3 + 1\<close> gives
  \<^verbatim>\<open>$9,007,199,254,740,992.00\<close>. An infinite sum gives \<^verbatim>\<open>$inf\<close> or \<^verbatim>\<open>$-inf\<close>, without
  decimals, and NaN gives the empty text.
\<close>

theorem profit_loss_text_format:
  "(\<exists>ip d1 d2 q.
      profit_loss_text (Finite x) =
        ''$'' @ (if x < 0 then ''-'' else []) @ ip @ [CHR ''.'', d1, d2] \<and>
      thousands_grouped ip \<and> is_digit d1 \<and> is_digit d2 \<and>
      nat_of_digits 0 (filter (\<lambda>c. c \<noteq> CHR '','') ip @ [d1, d2]) = Some q \<and>
      \<bar>of_nat q - \<bar>to_float x\<bar> * 100\<bar> \<le> 1 / 2) \<and>
   profit_loss_text (Finite 1234.5) = ''$1,234.50'' \<and>
   profit_loss_text (Finite (- 1234.5)) = ''$-1,234.50'' \<and>
   profit_loss_text (Finite 9007199254740993) = ''$9,007,199,254,740,992.00'' \<and>
   profit_loss_text PosInf = ''$inf'' \<and>
   profit_loss_text NegInf = ''$-inf'' \<and>
   profit_loss_text NaN = []"
proof -
  define q where "q = nat (round_half_even (\<bar>to_float x\<bar> * 100))"
  define ip where "ip = group3 (digits (q div 100))"
  define d1 where "d1 = digit_char (q mod 100 div 10)"
  define d2 where "d2 = digit_char (q mod 10)"
  have a: "q mod 100 div 10 < 10" "q mod 10 < 10" by simp_all
  have shape: "profit_loss_text (Finite x) =
      ''$'' @ (if x < 0 then ''-'' else []) @ ip @ [CHR ''.'', d1, d2]"
    using format_comma_2f_eval[OF refl q_def[symmetric]]
    by (simp add: ip_def d1_def d2_def to_float_neg_iff)
  have grouped: "thousands_grouped ip"
    unfolding ip_def using digits_props[of "q div 100"] by (intro group3_grouped) simp_all
  have dig: "is_digit d1" "is_digit d2"
    using digit_char_props[OF a(1)] digit_char_props[OF a(2)] by (simp_all add: d1_def d2_def)
  have "filter (\<lambda>c. c \<noteq> CHR '','') ip = digits (q div 100)"
    unfolding ip_def using digits_props[of "q div 100"] by (intro group3_filter) simp
  then have "nat_of_digits 0 (filter (\<lambda>c. c \<noteq> CHR '','') ip @ [d1, d2]) =
             Some (100 * (q div 100) + 10 * (q mod 100 div 10) + q mod 10)"
    using nat_of_digits_two[OF a] by (simp add: d1_def d2_def)
  moreover have "100 * (q div 100) + 10 * (q mod 100 div 10) + q mod 10 = q"
  proof -
    have "q mod 10 = q mod 100 mod 10"
      by (simp add: mod_mod_cancel)
    moreover have "10 * (q mod 100 div 10) + q mod 100 mod 10 = q mod 100"
      by simp
    moreover have "100 * (q div 100) + q mod 100 = q"
      by simp
    ultimately show ?thesis by linarith
  qed
  ultimately have val: "nat_of_digits 0 (filter (\<lambda>c. c \<noteq> CHR '','') ip @ [d1, d2]) = Some q"
    by simp
  have "of_nat q = (of_int (round_half_even (\<bar>to_float x\<bar> * 100)) :: rat)"
    using round_half_even_nonneg[of "\<bar>to_float x\<bar> * 100"] by (simp add: q_def)
  then have near: "\<bar>of_nat q - \<bar>to_float x\<bar> * 100\<bar> \<le> 1 / 2"
    using round_half_even_near[of "\<bar>to_float x\<bar> * 100"] by simp
  have "\<exists>ip d1 d2 q.
      profit_loss_text (Finite x) =
        ''$'' @ (if x < 0 then ''-'' else []) @ ip @ [CHR ''.'', d1, d2] \<and>
      thousands_grouped ip \<and> is_digit d1 \<and> is_digit d2 \<and>
      nat_of_digits 0 (filter (\<lambda>c. c \<noteq> CHR '','') ip @ [d1, d2]) = Some q \<and>
      \<bar>of_nat q - \<bar>to_float x\<bar> * 100\<bar> \<le> 1 / 2"
    by (intro exI[of _ ip] exI[of _ d1] exI[of _ d2] exI[of _ q] conjI)
       (rule shape grouped dig val near)+
  moreover have "profit_loss_text PosInf = ''$inf''" "profit_loss_text NegInf = ''$-inf''"
    "profit_loss_text NaN = []"
    by simp_all
  ultimately show ?thesis
    using text_1234_50 text_neg_1234_50 text_above_53_bits by (intro conjI)
qed

text \<open>
  The claim C5 as it was stated fails: the minus sign of a negative value does not come
  before the dollar sign, and the text of an infinite sum has no decimal digits.
\<close>

theorem negative_sign_follows_dollar:
  "profit_loss_text (Finite (- 1234.5)) = ''$-1,234.50'' \<and>
   profit_loss_text (Finite (- 1234.5)) \<noteq> ''-$1,234.50'' \<and>
   profit_loss_text PosInf = ''$inf''"
  by (simp only: text_neg_1234_50) simp

lemma DataFrame_claim_rows:
  "DataFrame claim_rows =
     \<lparr>nrows = 3,
      cols = [(''Expiration'',
               Object [Some (JStr ''2024-01-05''), Some (JStr ''2024-01-05''),
                       Some (JStr ''2024-01-12'')]),
              (''Profit/Loss'', Float64 [Some 100, Some (- 30), Some 50])]\<rparr>"
  by (simp add: claim_rows_def DataFrame_def column_names_def infer_series_def)

lemma iso3: "iso_date ''2024-01-12'' = Some (2024, 1, 12)"
  by (simp add: iso_date_def digit_val_def days_in_month_def)

lemma coerce_claim_rows:
  "coerce_profit_loss sample_pandas (coerce_expiration sample_pandas (DataFrame claim_rows)) =
   claim_table"
  by (simp add: DataFrame_claim_rows claim_table_def coerce_profit_loss_def
      coerce_expiration_def set_column_def sample_pandas_def upt_conv_Cons iso1 iso3)

lemma group_sum_dropna:
  "group_sum (dropna rs) k = sum_list (List.map_filter snd (filter (\<lambda>r. fst r = Some k) rs))"
  by (induction rs rule: dropna.induct)
     (auto simp: group_sum_def List.map_filter_simps split: option.splits)

lemma keys_dropna: "set (map fst (dropna rs)) = {k. Some k \<in> set (map fst rs)}"
  by (induction rs rule: dropna.induct) auto

lemma groupby_sum_keys: "map fst (groupby_sum rs) = sort (remdups (map fst rs))"
  by (simp add: groupby_sum_def comp_def)

lemma sort_values_groupby_sum: "sort_values (groupby_sum rs) = groupby_sum rs"
  unfolding sort_values_def
  by (rule sort_key_id_if_sorted) (simp add: groupby_sum_keys)

text \<open>
  C4. On the rows (2024-01-05, 100), (2024-01-05, -30), (2024-01-12, 50) the aggregation
  yields (2024-01-05, 70) and (2024-01-12, 50) with the texts \<^verbatim>\<open>$70.00\<close> and \<^verbatim>\<open>$50.00\<close>,
  both on the coerced table and in the run of the script on the fetched rows. On every
  table \<open>rs\<close> of (Expiration, Profit/Loss) cells the groups come in ascending order of date,
  one group per date; the dates are those of the rows whose Expiration is not null; and
  the value of the group of a date is the sum of the Profit/Loss cells that are not null
  in the rows of exactly this date.
\<close>

theorem aggregation_example:
  "agg_by_exp claim_table =
     Inr [((2024, 1, 5), 70, ''$70.00''), ((2024, 1, 12), 50, ''$50.00'')] \<and>
   render sample_pandas (DataFrame claim_rows) =
     (claim_table, Plotly_chart [((2024, 1, 5), 70, ''$70.00''), ((2024, 1, 12), 50, ''$50.00'')]) \<and>
   sorted (map fst (sort_values (groupby_sum (dropna rs)))) \<and>
   distinct (map fst (sort_values (groupby_sum (dropna rs)))) \<and>
   set (map fst (sort_values (groupby_sum (dropna rs)))) = {k. Some k \<in> set (map fst rs)} \<and>
   ((k, v) \<in> set (sort_values (groupby_sum (dropna rs))) \<longrightarrow>
      v = sum_list (List.map_filter snd (filter (\<lambda>r. fst r = Some k) rs)))"
proof -
  have agg: "agg_by_exp claim_table =
     Inr [((2024, 1, 5), 70, ''$70.00''), ((2024, 1, 12), 50, ''$50.00'')]"
    by (simp add: claim_table_def agg_by_exp_def groupby_sum_def group_sum_def sort_values_def
        List.map_filter_simps less_eq_prod_def less_prod_def text_70 text_50
        del: profit_loss_text.simps)
  have "\<not> empty (DataFrame claim_rows :: date dataframe)"
    by (simp add: empty_def DataFrame_claim_rows)
  moreover have "set [''Expiration'', ''Profit/Loss''] \<subseteq> set (columns claim_table)"
    by (simp add: columns_def claim_table_def)
  ultimately have run: "render sample_pandas (DataFrame claim_rows) =
     (claim_table, Plotly_chart [((2024, 1, 5), 70, ''$70.00''), ((2024, 1, 12), 50, ''$50.00'')])"
    using agg by (simp add: render_def Let_def coerce_claim_rows)
  have keys: "map fst (sort_values (groupby_sum (dropna rs))) =
              sort (remdups (map fst (dropna rs)))"
    by (simp add: sort_values_groupby_sum groupby_sum_keys)
  have 1: "sorted (map fst (sort_values (groupby_sum (dropna rs))))"
    and 2: "distinct (map fst (sort_values (groupby_sum (dropna rs))))"
    by (simp_all add: keys)
  have 3: "set (map fst (sort_values (groupby_sum (dropna rs)))) =
           {k. Some k \<in> set (map fst rs)}"
    unfolding keys using keys_dropna[of rs] by simp
  have 4: "(k, v) \<in> set (sort_values (groupby_sum (dropna rs))) \<longrightarrow>
           v = sum_list (List.map_filter snd (filter (\<lambda>r. fst r = Some k) rs))"
    unfolding sort_values_groupby_sum by (auto simp: groupby_sum_def group_sum_dropna)
  from agg run 1 2 3 4 show ?thesis by (intro conjI)
qed

theorem aggregation_example_witness:
  "((2024, 1, 5), 70) \<in>
     set (sort_values (groupby_sum (dropna
       [(Some (2024 :: nat, 1 :: nat, 5 :: nat), Some 100), (None, Some 8),
        (Some (2024, 1, 5), None), (Some (2024, 1, 5), Some (- 30))]))) \<and>
   (70 :: rat) = sum_list (List.map_filter snd (filter (\<lambda>r. fst r = Some (2024 :: nat, 1 :: nat, 5 :: nat))
       [(Some (2024, 1, 5), Some 100), (None, Some 8),
        (Some (2024, 1, 5), None), (Some (2024, 1, 5), Some (- 30))]))"
proof -
  let ?rs = "[(Some (2024 :: nat, 1 :: nat, 5 :: nat), Some (100 :: rat)), (None, Some 8),
              (Some (2024, 1, 5), None), (Some (2024, 1, 5), Some (- 30))]"
  have m: "((2024, 1, 5), 70) \<in> set (sort_values (groupby_sum (dropna ?rs)))"
    by (simp add: groupby_sum_def group_sum_def sort_values_def List.map_filter_simps)
  have "((2024, 1, 5), 70) \<in> set (sort_values (groupby_sum (dropna ?rs))) \<longrightarrow>
        (70 :: rat) = sum_list (List.map_filter snd (filter (\<lambda>r. fst r = Some (2024, 1, 5)) ?rs))"
    using aggregation_example[of ?rs "(2024, 1, 5)" 70] by (elim conjE)
  with m show ?thesis
    by (intro conjI) (assumption, erule mp, assumption)
qed

text \<open>
  C6. Let \<open>x\<close> be the number that the numeric parser reads from \<^verbatim>\<open>1234.56\<close>, the number
  1234.56 of the claim. Then the coercion of a Profit/Loss column that carries the text
  \<^verbatim>\<open>$1,234.56\<close> gives the same table as the coercion of a column that carries the number
  \<open>x\<close>, which is passed through unchanged.
\<close>

theorem currency_string_agrees_with_number:
  assumes "to_numeric P ''1234.56'' = Some x"
  shows
    "coerce_profit_loss P (DataFrame [[(''Profit/Loss'', JStr ''$1,234.56'')]]) =
       coerce_profit_loss P (DataFrame [[(''Profit/Loss'', JNum x)]]) \<and>
     coerce_profit_loss P (DataFrame [[(''Profit/Loss'', JNum x)]]) =
       DataFrame [[(''Profit/Loss'', JNum x)]] \<and>
     map_of (cols (coerce_profit_loss P (DataFrame [[(''Profit/Loss'', JStr ''$1,234.56'')]])))
       ''Profit/Loss'' = Some (Float64 [Some x])"
  using assms
  by (simp add: DataFrame_def column_names_def infer_series_def coerce_profit_loss_def
      set_column_def strip_currency_def)

theorem currency_string_agrees_with_number_witness:
  "to_numeric sample_pandas ''1234.56'' = Some 1234.56 \<and>
   coerce_profit_loss sample_pandas (DataFrame [[(''Profit/Loss'', JStr ''$1,234.56'')]]) =
     coerce_profit_loss sample_pandas (DataFrame [[(''Profit/Loss'', JNum 1234.56)]]) \<and>
   map_of (cols (coerce_profit_loss sample_pandas
       (DataFrame [[(''Profit/Loss'', JStr ''$1,234.56'')]]))) ''Profit/Loss'' =
     Some (Float64 [Some 1234.56])"
proof -
  have h: "to_numeric sample_pandas ''1234.56'' = Some 1234.56"
    by (simp add: sample_pandas_def sample_to_numeric_def digit_val_def)
  from currency_string_agrees_with_number[OF h] h show ?thesis by blast
qed

end
